theory Spec2Isabelle
  imports Complex_Main "HOL-Library.Sublist" "HOL-Library.Multiset"
begin

section \<open>Exceptions\<close>

text \<open>
  Every Python exception that the services can see is a value. \<open>Error msg\<close> stands for any
  exception derived from \<open>Exception\<close> other than FastAPI's \<open>HTTPException\<close>; \<open>msg\<close> is
  what \<open>str(e)\<close> gives. \<open>HTTPException status detail\<close> is the exception the services
  raise themselves.
\<close>

datatype exn = Error string | HTTPException nat string

fun digit_char :: "nat \<Rightarrow> char" where
  "digit_char n = char_of (48 + n)"

fun show_nat :: "nat \<Rightarrow> string" where
  "show_nat n = (if n < 10 then [digit_char n] else show_nat (n div 10) @ [digit_char (n mod 10)])"

declare show_nat.simps [simp del]

text \<open>\<open>str(e)\<close>: an \<open>HTTPException\<close> prints as \<open>"<status>: <detail>"\<close>.\<close>

fun str_exn :: "exn \<Rightarrow> string" where
  "str_exn (Error msg) = msg"
| "str_exn (HTTPException status detail) = show_nat status @ '': '' @ detail"

section \<open>Python string helpers\<close>

text \<open>
  A Python \<open>str\<close> is a list of characters; one \<open>char\<close> stands for one character, so
  \<open>length\<close> is Python's \<open>len\<close>.
\<close>

definition lower_char :: "char \<Rightarrow> char" where
  "lower_char c = (let n = (of_char c :: nat) in if 65 \<le> n \<and> n \<le> 90 then char_of (n + 32) else c)"

definition lower :: "string \<Rightarrow> string" where
  "lower s = map lower_char s"

definition endswith :: "string \<Rightarrow> string \<Rightarrow> bool" where
  "endswith s suf = (length suf \<le> length s \<and> drop (length s - length suf) s = suf)"

definition isspace :: "char \<Rightarrow> bool" where
  "isspace c = (let n = (of_char c :: nat) in (9 \<le> n \<and> n \<le> 13) \<or> (28 \<le> n \<and> n \<le> 32) \<or> n = 133 \<or> n = 160)"

definition strip :: "string \<Rightarrow> string" where
  "strip s = rev (dropWhile isspace (rev (dropWhile isspace s)))"

text \<open>\<open>sub in s\<close> for strings.\<close>

fun str_contains :: "string \<Rightarrow> string \<Rightarrow> bool" where
  "str_contains sub [] = (sub = [])"
| "str_contains sub (c # cs) = (take (length sub) (c # cs) = sub \<or> str_contains sub cs)"

text \<open>\<open>sep.join(xs)\<close>.\<close>

fun join :: "string \<Rightarrow> string list \<Rightarrow> string" where
  "join sep [] = []"
| "join sep [x] = x"
| "join sep (x # y # ys) = x @ sep @ join sep (y # ys)"

section \<open>The database (app/models/db\_models.py)\<close>

type_synonym vector = "real list"

record session_row =
  s_id :: string
  s_created_at :: nat
  s_summary :: "string option"

record message_row =
  m_id :: nat
  m_session_id :: string
  m_role :: string
  m_content :: string
  m_created_at :: nat

record document_row =
  d_id :: nat
  d_session_id :: string
  d_filename :: string
  d_content :: string
  d_created_at :: nat

record chunk_row =
  c_id :: nat
  c_document_id :: nat
  c_content :: string
  c_embedding :: vector

text \<open>
  What an \<open>AsyncSession\<close> holds between \<open>add\<close>/\<open>execute(update ...)\<close> and \<open>commit\<close>:
  the objects and updates of the open transaction.
\<close>

datatype pending_op =
    AddSession string
  | AddMessage string string string
  | AddDocument string string string
  | AddChunk nat string vector
  | SetSummary string string

text \<open>
  The four tables hold the committed rows, in insertion order. \<open>clock\<close> is the server
  time that \<open>func.now()\<close> gives to \<open>created_at\<close>: the rows of one transaction share it and
  it advances from one transaction to the next. The \<open>next_*\<close> fields are the
  autoincrement sequences of the integer primary keys.
\<close>

record database =
  sessions :: "session_row list"
  messages :: "message_row list"
  documents :: "document_row list"
  chunks :: "chunk_row list"
  clock :: nat
  next_message_id :: nat
  next_document_id :: nat
  next_chunk_id :: nat
  pending :: "pending_op list"

definition db_add :: "pending_op \<Rightarrow> database \<Rightarrow> database" where
  "db_add obj db = db\<lparr>pending := pending db @ [obj]\<rparr>"

fun apply_pending :: "pending_op \<Rightarrow> database \<Rightarrow> database" where
  "apply_pending (AddSession sid) db =
     db\<lparr>sessions := sessions db @ [\<lparr>s_id = sid, s_created_at = clock db, s_summary = None\<rparr>]\<rparr>"
| "apply_pending (AddMessage sid role content) db =
     db\<lparr>messages := messages db @
          [\<lparr>m_id = next_message_id db, m_session_id = sid, m_role = role,
            m_content = content, m_created_at = clock db\<rparr>],
        next_message_id := Suc (next_message_id db)\<rparr>"
| "apply_pending (AddDocument sid filename content) db =
     db\<lparr>documents := documents db @
          [\<lparr>d_id = next_document_id db, d_session_id = sid, d_filename = filename,
            d_content = content, d_created_at = clock db\<rparr>],
        next_document_id := Suc (next_document_id db)\<rparr>"
| "apply_pending (AddChunk did content embedding) db =
     db\<lparr>chunks := chunks db @
          [\<lparr>c_id = next_chunk_id db, c_document_id = did, c_content = content,
            c_embedding = embedding\<rparr>],
        next_chunk_id := Suc (next_chunk_id db)\<rparr>"
| "apply_pending (SetSummary sid new_summary) db =
     db\<lparr>sessions := map (\<lambda>s. if s_id s = sid then s\<lparr>s_summary := Some new_summary\<rparr> else s)
                        (sessions db)\<rparr>"

text \<open>
  \<open>await db.commit()\<close>: the store may refuse it (\<open>fault = Some e\<close>: connection lost, or
  a constraint violated, such as a message or a document for a session that has no row),
  and then no table changes; otherwise the whole transaction is written at once.
  \<open>await db.rollback()\<close> drops the open transaction and nothing else.
\<close>

definition db_commit :: "exn option \<Rightarrow> database \<Rightarrow> (exn + unit) \<times> database" where
  "db_commit fault db =
     (case fault of
        Some e \<Rightarrow> (Inl e, db)
      | None \<Rightarrow> (Inr (), (fold apply_pending (pending db) db)\<lparr>clock := Suc (clock db), pending := []\<rparr>))"

definition db_rollback :: "exn option \<Rightarrow> database \<Rightarrow> (exn + unit) \<times> database" where
  "db_rollback fault db =
     (case fault of
        Some e \<Rightarrow> (Inl e, db)
      | None \<Rightarrow> (Inr (), db\<lparr>pending := []\<rparr>))"

text \<open>\<open>await db.refresh(obj)\<close> for a document: reads the row back by its primary key.\<close>

definition db_refresh_document :: "exn option \<Rightarrow> nat \<Rightarrow> database \<Rightarrow> exn + document_row" where
  "db_refresh_document fault did db =
     (case fault of
        Some e \<Rightarrow> Inl e
      | None \<Rightarrow> (case find (\<lambda>d. d_id d = did) (documents db) of
                   None \<Rightarrow> Inl (Error ''Could not refresh instance'')
                 | Some d \<Rightarrow> Inr d))"

text \<open>\<open>result.scalar_one_or_none()\<close>.\<close>

definition scalar_one_or_none :: "'a list \<Rightarrow> exn + 'a option" where
  "scalar_one_or_none rows =
     (case rows of
        [] \<Rightarrow> Inr None
      | [r] \<Rightarrow> Inr (Some r)
      | _ \<Rightarrow> Inl (Error ''Multiple rows were found when one or none was required''))"

section \<open>Document ingestion (app/services/file\_service.py)\<close>

type_synonym bytes = "char list"

text \<open>
  A page of an opened PDF: \<open>page.extract_text()\<close> raises, or returns nothing, or returns
  text.
\<close>

type_synonym pdf_page = "exn + string option"

text \<open>
  The collaborators of an upload. \<open>file_read\<close> is \<open>await file.read()\<close>; \<open>decode_utf8\<close> is
  \<open>bytes.decode("utf-8")\<close>; \<open>pdf_reader\<close> is \<open>pypdf.PdfReader(io.BytesIO(content))\<close> with its
  pages; \<open>embed_documents\<close> is \<open>get_embeddings_service().aembed_documents(chunks)\<close>; the
  \<open>*_fault\<close> fields say whether the store refuses the call.
\<close>

record upload_file =
  filename :: "string option"
  file_read :: "exn + bytes"

record file_env =
  decode_utf8 :: "bytes \<Rightarrow> exn + string"
  pdf_reader :: "bytes \<Rightarrow> exn + pdf_page list"
  embed_documents :: "string list \<Rightarrow> exn + vector list"
  commit_document_fault :: "exn option"
  refresh_fault :: "exn option"
  commit_chunks_fault :: "exn option"
  rollback_fault :: "exn option"

text \<open>
  The loop of \<open>parse_pdf\<close> over the pages, with the text accumulated so far. It stops at
  the first page that raises and hands the exception and the text to the handler.
\<close>

fun extract_pages :: "pdf_page list \<Rightarrow> string \<Rightarrow> exn option \<times> string" where
  "extract_pages [] text = (None, text)"
| "extract_pages (Inl e # ps) text = (Some e, text)"
| "extract_pages (Inr None # ps) text = extract_pages ps text"
| "extract_pages (Inr (Some extracted) # ps) text =
     extract_pages ps (if extracted \<noteq> [] then text @ extracted else text)"

text \<open>
  \<open>parse_pdf\<close>, given what \<open>PdfReader\<close> does on the bytes. The handler logs the exception
  and falls through to \<open>return text\<close>.
\<close>

definition parse_pdf :: "exn + pdf_page list \<Rightarrow> exn + string" where
  "parse_pdf reader =
     (case reader of
        Inl e \<Rightarrow> Inr []
      | Inr pages \<Rightarrow> (case extract_pages pages [] of
                       (Some e, text) \<Rightarrow> Inr text
                     | (None, text) \<Rightarrow> Inr text))"

text \<open>
  Modelled from the spec: the text splitter. The source calls
  \<open>RecursiveCharacterTextSplitter(chunk_size=800, chunk_overlap=100).split_text\<close> of the package
  \<open>langchain_text_splitters\<close>, which is not part of the source tree. The spec gives
  the policy: a deterministic sliding-window split over characters with a fixed chunk
  size and a fixed overlap, where the final chunk is whatever remains. A window that
  would not advance (chunk size \<open>\<le>\<close> overlap) ends the split.
\<close>

function sliding_window :: "nat \<Rightarrow> nat \<Rightarrow> 'a list \<Rightarrow> 'a list list" where
  "sliding_window chunk_size chunk_overlap text =
     (if text = [] then []
      else if length text \<le> chunk_size \<or> chunk_size \<le> chunk_overlap then [text]
      else take chunk_size text #
           sliding_window chunk_size chunk_overlap (drop (chunk_size - chunk_overlap) text))"
  by pat_completeness auto
termination
  by (relation "measure (\<lambda>(chunk_size, chunk_overlap, text). length text)") auto

declare sliding_window.simps [simp del]

definition split_text :: "string \<Rightarrow> string list" where
  "split_text content = sliding_window 800 100 content"

text \<open>Step 1 of \<open>process_file\<close>: the body of the first \<open>try\<close>.\<close>

definition read_content :: "file_env \<Rightarrow> upload_file \<Rightarrow> string \<Rightarrow> exn + string" where
  "read_content env file name =
     (if endswith (lower name) ''.pdf'' then
        (case file_read file of
           Inl e \<Rightarrow> Inl e
         | Inr pdf_content \<Rightarrow> parse_pdf (pdf_reader env pdf_content))
      else if endswith (lower name) ''.txt'' then
        (case file_read file of
           Inl e \<Rightarrow> Inl e
         | Inr raw \<Rightarrow> decode_utf8 env raw)
      else Inl (HTTPException 400 ''Unsupported file format. Only PDF and TXT are supported.''))"

text \<open>Steps 2 to 5 of \<open>process_file\<close>: the body of the second \<open>try\<close>.\<close>

definition store_chunks ::
  "file_env \<Rightarrow> document_row \<Rightarrow> string list \<Rightarrow> database \<Rightarrow> (exn + document_row) \<times> database" where
  "store_chunks env db_doc chunk_texts db =
     (case embed_documents env chunk_texts of
        Inl e \<Rightarrow> (Inl e, db)
      | Inr vectors \<Rightarrow>
          (let chunk_objects = map (\<lambda>(chunk_text, v). AddChunk (d_id db_doc) chunk_text v)
                                   (zip chunk_texts vectors);
               db1 = fold db_add chunk_objects db
           in case db_commit (commit_chunks_fault env) db1 of
                (Inl e, db2) \<Rightarrow> (Inl e, db2)
              | (Inr u, db2) \<Rightarrow> (Inr db_doc, db2)))"

definition ingest ::
  "file_env \<Rightarrow> string \<Rightarrow> string \<Rightarrow> string \<Rightarrow> database \<Rightarrow> (exn + document_row) \<times> database" where
  "ingest env name content session_id db =
     (let db1 = db_add (AddDocument session_id name content) db
      in case db_commit (commit_document_fault env) db1 of
           (Inl e, db2) \<Rightarrow> (Inl e, db2)
         | (Inr u, db2) \<Rightarrow>
             (case db_refresh_document (refresh_fault env) (next_document_id db1) db2 of
                Inl e \<Rightarrow> (Inl e, db2)
              | Inr db_doc \<Rightarrow>
                  (let chunk_texts = split_text content
                   in if chunk_texts = [] then (Inr db_doc, db2)
                      else store_chunks env db_doc chunk_texts db2)))"

definition unknown_name :: "upload_file \<Rightarrow> string" where
  "unknown_name file =
     (case filename file of None \<Rightarrow> ''unknown'' | Some f \<Rightarrow> if f = [] then ''unknown'' else f)"

definition empty_content_detail :: string where
  "empty_content_detail = ''File content is empty or could not be extracted.''"

definition process_file ::
  "file_env \<Rightarrow> upload_file \<Rightarrow> string \<Rightarrow> database \<Rightarrow> (exn + document_row) \<times> database" where
  "process_file env file session_id db =
     (let name = unknown_name file
      in case read_content env file name of
           Inl e \<Rightarrow> (Inl (HTTPException 400 (''Error reading file: '' @ str_exn e)), db)
         | Inr content \<Rightarrow>
             if strip content = [] then (Inl (HTTPException 400 empty_content_detail), db)
             else
               (case ingest env name content session_id db of
                  (Inr db_doc, db') \<Rightarrow> (Inr db_doc, db')
                | (Inl e, db') \<Rightarrow>
                    (case db_rollback (rollback_fault env) db' of
                       (Inl r, db'') \<Rightarrow> (Inl r, db'')
                     | (Inr u, db'') \<Rightarrow>
                         (Inl (HTTPException 500
                                 (''Internal Server Error processing file: '' @ str_exn e)), db''))))"

section \<open>Chat turns (app/services/chat\_service.py)\<close>

datatype chat_message = SystemMessage string | HumanMessage string | AIMessage string

text \<open>
  The collaborators of a turn. \<open>embed_query\<close> is
  \<open>get_embeddings_service().aembed_query(user_query)\<close>; \<open>llm attempt messages\<close> is what
  \<open>get_llm()\<close> followed by \<open>llm.ainvoke(messages)\<close> does at that attempt of the retry loop: it
  raises or gives \<open>response.content\<close>; the \<open>*_fault\<close> fields say whether the store refuses
  the call of that stage.
\<close>

record chat_env =
  select_session_fault :: "exn option"
  commit_session_fault :: "exn option"
  commit_user_fault :: "exn option"
  embed_query :: "string \<Rightarrow> exn + vector"
  select_chunks_fault :: "exn option"
  select_history_fault :: "exn option"
  llm :: "nat \<Rightarrow> chat_message list \<Rightarrow> exn + string"
  commit_ai_fault :: "exn option"
  add_task_fault :: "exn option"

text \<open>
  What a turn leaves behind: the store, the delays passed to \<open>asyncio.sleep\<close> in order,
  and the session ids handed to \<open>background_tasks.add_task(update_summary, ...)\<close>.
\<close>

record turn_state =
  turn_db :: database
  slept :: "nat list"
  tasks :: "string list"

definition nl :: char where
  "nl = CHR 0x0A"

subsection \<open>The queries\<close>

text \<open>
  \<open>select(Message).where(Message.session_id == session_id)
  .order_by(Message.created_at.desc()).limit(n)\<close>. Among rows with the same \<open>created_at\<close>
  the store fixes no order; the model takes the later inserted row first.
\<close>

definition last_messages :: "nat \<Rightarrow> string \<Rightarrow> database \<Rightarrow> message_row list" where
  "last_messages n session_id db =
     take n (rev (sort_key m_created_at [m \<leftarrow> messages db. m_session_id m = session_id]))"

text \<open>
  The \<open><->\<close> operator of pgvector: Euclidean distance. The column type fixes the
  dimension, so the two vectors have the same length.
\<close>

definition l2_distance :: "vector \<Rightarrow> vector \<Rightarrow> real" where
  "l2_distance a b = sqrt (\<Sum>(x, y) \<leftarrow> zip a b. (x - y)\<^sup>2)"

text \<open>
  \<open>select(DocumentChunk).join(Document, DocumentChunk.document_id == Document.id)
  .where(Document.session_id == session_id)
  .order_by(DocumentChunk.embedding.l2_distance(query_vector)).limit(3)\<close>
\<close>

definition nearest_chunks :: "string \<Rightarrow> vector \<Rightarrow> database \<Rightarrow> chunk_row list" where
  "nearest_chunks session_id query_vector db =
     take 3 (sort_key (\<lambda>c. l2_distance (c_embedding c) query_vector)
               [c. c \<leftarrow> chunks db, d \<leftarrow> documents db,
                   c_document_id c = d_id d \<and> d_session_id d = session_id])"

subsection \<open>The stages of \<open>process_chat\<close>\<close>

text \<open>Stage 1: ensure the session exists; gives \<open>session_summary\<close>.\<close>

definition ensure_session :: "chat_env \<Rightarrow> string \<Rightarrow> database \<Rightarrow> (exn + string) \<times> database" where
  "ensure_session env session_id db =
     (case select_session_fault env of
        Some e \<Rightarrow> (Inl e, db)
      | None \<Rightarrow>
          (case scalar_one_or_none [s \<leftarrow> sessions db. s_id s = session_id] of
             Inl e \<Rightarrow> (Inl e, db)
           | Inr None \<Rightarrow>
               (case db_commit (commit_session_fault env) (db_add (AddSession session_id) db) of
                  (Inl e, db1) \<Rightarrow> (Inl e, db1)
                | (Inr u, db1) \<Rightarrow> (Inr [], db1))
           | Inr (Some session_obj) \<Rightarrow>
               (Inr (case s_summary session_obj of None \<Rightarrow> [] | Some t \<Rightarrow> t), db)))"

text \<open>Stage 2: save the user message.\<close>

definition save_user_message ::
  "chat_env \<Rightarrow> string \<Rightarrow> string \<Rightarrow> database \<Rightarrow> (exn + unit) \<times> database" where
  "save_user_message env session_id user_query db =
     db_commit (commit_user_fault env) (db_add (AddMessage session_id ''user'' user_query) db)"

text \<open>Stage 3: retrieve the context; the inner \<open>try\<close> absorbs every exception.\<close>

definition retrieve_context :: "chat_env \<Rightarrow> string \<Rightarrow> string \<Rightarrow> database \<Rightarrow> string" where
  "retrieve_context env session_id user_query db =
     (case embed_query env user_query of
        Inl e \<Rightarrow> ''Error retrieving context.''
      | Inr query_vector \<Rightarrow>
          (case select_chunks_fault env of
             Some e \<Rightarrow> ''Error retrieving context.''
           | None \<Rightarrow>
               (let relevant_chunks = nearest_chunks session_id query_vector db
                in if relevant_chunks \<noteq> []
                   then join [nl, nl] (map (\<lambda>chunk. ''[Chunk]: '' @ c_content chunk) relevant_chunks)
                   else ''No relevant documents found.'')))"

text \<open>Stage 4: the last 6 messages, reversed to chronological order.\<close>

definition read_history :: "chat_env \<Rightarrow> string \<Rightarrow> database \<Rightarrow> exn + message_row list" where
  "read_history env session_id db =
     (case select_history_fault env of
        Some e \<Rightarrow> Inl e
      | None \<Rightarrow> Inr (rev (last_messages 6 session_id db)))"

text \<open>Stage 5: the system prompt and the history as chat messages.\<close>

definition system_prompt :: "string \<Rightarrow> string \<Rightarrow> string" where
  "system_prompt context_text session_summary = join [nl]
     [''You are an intelligent AI Assistant for the 'Atlantis' system.'',
      [],
      ''        Instructions:'',
      ''        1. Answer the user's question accurately.'',
      ''        2. Use the provided 'Context from Documents' if relevant.'',
      ''        3. Use the 'Conversation Summary' and 'Conversation History' to maintain continuity.'',
      ''        4. If the answer is not in the context, use your general knowledge but mention that it's outside the provided documents.'',
      [],
      ''        Context from Documents (RAG):'',
      ''        '' @ context_text,
      [],
      ''        Conversation Summary (Long-term Memory):'',
      ''        '' @ session_summary,
      ''        '']"

fun history_messages :: "message_row list \<Rightarrow> chat_message list" where
  "history_messages [] = []"
| "history_messages (msg # rest) =
     (if m_role msg = ''user'' then HumanMessage (m_content msg) # history_messages rest
      else if m_role msg = ''assistant'' then AIMessage (m_content msg) # history_messages rest
      else history_messages rest)"

text \<open>Stage 6: the retry loop \<open>for attempt in range(max_retries)\<close>.\<close>

definition max_retries :: nat where
  "max_retries = 3"

definition overloaded_reply :: string where
  "overloaded_reply = ''I apologize, but I am currently overloaded. Please try again later.''"

definition internal_error_reply :: string where
  "internal_error_reply =
     ''I apologize, but I encountered an internal error while processing your request.''"

definition is_quota_error :: "exn \<Rightarrow> bool" where
  "is_quota_error e =
     (str_contains ''429'' (str_exn e) \<or> str_contains ''RESOURCE_EXHAUSTED'' (str_exn e))"

fun invoke_with_retry ::
  "chat_env \<Rightarrow> chat_message list \<Rightarrow> nat list \<Rightarrow> nat \<Rightarrow> string \<Rightarrow> nat list
     \<Rightarrow> (exn + string) \<times> nat list" where
  "invoke_with_retry env msgs [] retry_delay ai_response_text sl = (Inr ai_response_text, sl)"
| "invoke_with_retry env msgs (attempt # rest) retry_delay ai_response_text sl =
     (case llm env attempt msgs of
        Inr content \<Rightarrow> (Inr content, sl)
      | Inl e \<Rightarrow>
          if is_quota_error e \<and> attempt < max_retries - 1
          then invoke_with_retry env msgs rest (retry_delay * 2) ai_response_text (sl @ [retry_delay])
          else (Inl e, sl))"

text \<open>Stages 7 and 8: save the reply and schedule the summary update.\<close>

definition finish_turn ::
  "chat_env \<Rightarrow> string \<Rightarrow> string \<Rightarrow> turn_state \<Rightarrow> (exn + string) \<times> turn_state" where
  "finish_turn env session_id ai_response_text w =
     (case db_commit (commit_ai_fault env)
             (db_add (AddMessage session_id ''assistant'' ai_response_text) (turn_db w)) of
        (Inl e, db4) \<Rightarrow> (Inl e, w\<lparr>turn_db := db4\<rparr>)
      | (Inr u, db4) \<Rightarrow>
          (case add_task_fault env of
             Some e \<Rightarrow> (Inl e, w\<lparr>turn_db := db4\<rparr>)
           | None \<Rightarrow> (Inr ai_response_text, w\<lparr>turn_db := db4, tasks := tasks w @ [session_id]\<rparr>)))"

text \<open>The body of the outer \<open>try\<close> of \<open>process_chat\<close>.\<close>

definition process_chat_body ::
  "chat_env \<Rightarrow> string \<Rightarrow> string \<Rightarrow> turn_state \<Rightarrow> (exn + string) \<times> turn_state" where
  "process_chat_body env session_id user_query w =
     (case ensure_session env session_id (turn_db w) of
        (Inl e, db1) \<Rightarrow> (Inl e, w\<lparr>turn_db := db1\<rparr>)
      | (Inr session_summary, db1) \<Rightarrow>
     (case save_user_message env session_id user_query db1 of
        (Inl e, db2) \<Rightarrow> (Inl e, w\<lparr>turn_db := db2\<rparr>)
      | (Inr u, db2) \<Rightarrow>
     (let context_text = retrieve_context env session_id user_query db2
      in case read_history env session_id db2 of
        Inl e \<Rightarrow> (Inl e, w\<lparr>turn_db := db2\<rparr>)
      | Inr history_records \<Rightarrow>
     (let msgs = SystemMessage (system_prompt context_text session_summary)
                   # history_messages history_records
      in case invoke_with_retry env msgs [0..<max_retries] 5 overloaded_reply (slept w) of
        (Inl e, sl) \<Rightarrow> (Inl e, w\<lparr>turn_db := db2, slept := sl\<rparr>)
      | (Inr ai_response_text, sl) \<Rightarrow>
          finish_turn env session_id ai_response_text (w\<lparr>turn_db := db2, slept := sl\<rparr>)))))"

text \<open>\<open>process_chat\<close>: the outer handler turns every exception into the fixed reply.\<close>

definition process_chat ::
  "chat_env \<Rightarrow> string \<Rightarrow> string \<Rightarrow> turn_state \<Rightarrow> (exn + string) \<times> turn_state" where
  "process_chat env session_id user_query w =
     (case process_chat_body env session_id user_query w of
        (Inl e, w') \<Rightarrow> (Inr internal_error_reply, w')
      | (Inr ai_response_text, w') \<Rightarrow> (Inr ai_response_text, w'))"

subsection \<open>The route \<open>/chat\<close> (app/api/routes.py)\<close>

datatype chat_response = ChatResponse string string

definition chat_endpoint ::
  "chat_env \<Rightarrow> string \<Rightarrow> string \<Rightarrow> turn_state \<Rightarrow> (exn + chat_response) \<times> turn_state" where
  "chat_endpoint env session_id user_query w =
     (case process_chat env session_id user_query w of
        (Inl e, w') \<Rightarrow>
          (Inl (HTTPException 500 ''Internal Server Error during chat processing.''), w')
      | (Inr response_text, w') \<Rightarrow> (Inr (ChatResponse response_text session_id), w'))"

subsection \<open>The background task \<open>update_summary\<close>\<close>

text \<open>
  \<open>open_fault\<close> covers the import and \<open>SessionLocal()\<close>; \<open>summarize prompt\<close> is what
  \<open>get_llm()\<close>, setting the temperature and \<open>llm.ainvoke([HumanMessage(content=prompt)])\<close> do:
  they raise or give \<open>response.content\<close>.
\<close>

record summary_env =
  open_fault :: "exn option"
  select_recent_fault :: "exn option"
  select_current_fault :: "exn option"
  summarize :: "string \<Rightarrow> exn + string"
  update_fault :: "exn option"
  commit_summary_fault :: "exn option"

definition summary_prompt :: "string \<Rightarrow> message_row list \<Rightarrow> string" where
  "summary_prompt current_summary recent_messages = join [nl]
     [[],
      ''            You are an expert summarizer. Update the conversation summary based on the new messages.'',
      ''            '',
      ''            Current Summary:'',
      ''            '' @ current_summary,
      ''            '',
      ''            Recent Messages:'',
      ''            '' @ join [nl] (map (\<lambda>msg. m_role msg @ '': '' @ m_content msg) recent_messages),
      ''            '',
      ''            Instruction:'',
      ''            - Incorporate meaningful new information into the summary.'',
      ''            - Keep the summary concise (under 200 words).'',
      ''            - Maintain key details from the 'Current Summary' if they are still relevant.'',
      ''            '']"

text \<open>
  Steps 2 to 4, once the recent messages are known to be non-empty. An absent summary
  prints as \<open>None\<close> in the prompt.
\<close>

definition write_summary ::
  "summary_env \<Rightarrow> string \<Rightarrow> message_row list \<Rightarrow> database \<Rightarrow> (exn + unit) \<times> database" where
  "write_summary env session_id recent_messages session =
     (case select_current_fault env of
        Some e \<Rightarrow> (Inl e, session)
      | None \<Rightarrow>
     (case scalar_one_or_none [s \<leftarrow> sessions session. s_id s = session_id] of
        Inl e \<Rightarrow> (Inl e, session)
      | Inr session_obj \<Rightarrow>
     (let current_summary =
            (case session_obj of
               None \<Rightarrow> ''No summary yet.''
             | Some s \<Rightarrow> (case s_summary s of None \<Rightarrow> ''None'' | Some t \<Rightarrow> t))
      in case summarize env (summary_prompt current_summary recent_messages) of
        Inl e \<Rightarrow> (Inl e, session)
      | Inr new_summary \<Rightarrow>
     (case update_fault env of
        Some e \<Rightarrow> (Inl e, session)
      | None \<Rightarrow>
          db_commit (commit_summary_fault env) (db_add (SetSummary session_id new_summary) session)))))"

text \<open>The body of the \<open>try\<close>: the task opens a session of its own on the store.\<close>

definition update_summary_body ::
  "summary_env \<Rightarrow> string \<Rightarrow> database \<Rightarrow> (exn + unit) \<times> database" where
  "update_summary_body env session_id store =
     (case open_fault env of
        Some e \<Rightarrow> (Inl e, store)
      | None \<Rightarrow>
     (let session = store\<lparr>pending := []\<rparr>
      in case select_recent_fault env of
        Some e \<Rightarrow> (Inl e, session)
      | None \<Rightarrow>
     (let recent_messages = rev (last_messages 10 session_id session)
      in if recent_messages = [] then (Inr (), session)
         else write_summary env session_id recent_messages session)))"

text \<open>
  \<open>update_summary\<close>: the handler logs the exception and returns; leaving the
  \<open>async with\<close> block closes the session, which drops an open transaction.
\<close>

definition update_summary ::
  "summary_env \<Rightarrow> string \<Rightarrow> database \<Rightarrow> (exn + unit) \<times> database" where
  "update_summary env session_id store =
     (case update_summary_body env session_id store of
        (Inl e, session) \<Rightarrow> (Inr (), session\<lparr>pending := []\<rparr>)
      | (Inr u, session) \<Rightarrow> (Inr (), session\<lparr>pending := []\<rparr>))"

section \<open>Sample stores and collaborators\<close>

text \<open>Concrete inputs on which the theorems below are exercised.\<close>

definition empty_db :: database where
  "empty_db = \<lparr>sessions = [], messages = [], documents = [], chunks = [], clock = 0,
               next_message_id = 0, next_document_id = 0, next_chunk_id = 0, pending = []\<rparr>"

text \<open>
  A decoder that accepts ASCII only, a PDF reader that accepts bytes starting with
  \<open>%PDF\<close> and finds one page, an embedding service that always answers.
\<close>

definition sample_file_env :: file_env where
  "sample_file_env =
     \<lparr>decode_utf8 = (\<lambda>raw. if list_all (\<lambda>c. (of_char c :: nat) < 128) raw then Inr raw
                          else Inl (Error ''invalid start byte'')),
      pdf_reader = (\<lambda>raw. if take 4 raw = ''%PDF'' then Inr [Inr (Some (drop 4 raw))]
                         else Inl (Error ''EOF marker not found'')),
      embed_documents = (\<lambda>chunk_texts. Inr (map (\<lambda>c. [real (length c)]) chunk_texts)),
      commit_document_fault = None, refresh_fault = None, commit_chunks_fault = None,
      rollback_fault = None\<rparr>"

text \<open>The same, but the second page of every PDF cannot be read.\<close>

definition half_read_pdf_env :: file_env where
  "half_read_pdf_env =
     sample_file_env\<lparr>pdf_reader := (\<lambda>raw. Inr [Inr (Some ''page one''), Inl (Error ''bad xref'')])\<rparr>"

text \<open>The same, but the embedding provider is out of quota.\<close>

definition failing_embed_env :: file_env where
  "failing_embed_env = sample_file_env\<lparr>embed_documents := (\<lambda>chunk_texts. Inl (Error ''quota''))\<rparr>"

definition docx_upload :: upload_file where
  "docx_upload = \<lparr>filename = Some ''notes.docx'', file_read = Inr ''PK''\<rparr>"

definition corrupt_pdf_upload :: upload_file where
  "corrupt_pdf_upload = \<lparr>filename = Some ''scan.pdf'', file_read = Inr ''junk''\<rparr>"

definition blank_txt_upload :: upload_file where
  "blank_txt_upload = \<lparr>filename = Some ''blank.txt'', file_read = Inr ''   ''\<rparr>"

definition undecodable_txt_upload :: upload_file where
  "undecodable_txt_upload = \<lparr>filename = Some ''latin.txt'', file_read = Inr [CHR 0xE9, CHR ''t'']\<rparr>"

definition txt_upload :: upload_file where
  "txt_upload = \<lparr>filename = Some ''a.txt'', file_read = Inr ''hello''\<rparr>"

text \<open>A store with two sessions; session \<open>B\<close> owns the chunk nearest to the origin.\<close>

definition two_session_db :: database where
  "two_session_db =
     \<lparr>sessions = [\<lparr>s_id = ''A'', s_created_at = 0, s_summary = None\<rparr>,
                  \<lparr>s_id = ''B'', s_created_at = 1, s_summary = Some ''talked about tea''\<rparr>],
      messages = [\<lparr>m_id = 0, m_session_id = ''A'', m_role = ''user'', m_content = ''hi'',
                    m_created_at = 2\<rparr>,
                  \<lparr>m_id = 1, m_session_id = ''B'', m_role = ''user'', m_content = ''tea?'',
                    m_created_at = 3\<rparr>,
                  \<lparr>m_id = 2, m_session_id = ''A'', m_role = ''assistant'', m_content = ''hello'',
                    m_created_at = 4\<rparr>],
      documents = [\<lparr>d_id = 0, d_session_id = ''A'', d_filename = ''a.txt'',
                     d_content = ''alpha beta gamma delta'', d_created_at = 5\<rparr>,
                   \<lparr>d_id = 1, d_session_id = ''B'', d_filename = ''b.txt'', d_content = ''tea'',
                     d_created_at = 6\<rparr>],
      chunks = [\<lparr>c_id = 0, c_document_id = 0, c_content = ''alpha'', c_embedding = [3, 4]\<rparr>,
                \<lparr>c_id = 1, c_document_id = 1, c_content = ''tea'', c_embedding = [0, 0]\<rparr>,
                \<lparr>c_id = 2, c_document_id = 0, c_content = ''beta'', c_embedding = [1, 0]\<rparr>,
                \<lparr>c_id = 3, c_document_id = 0, c_content = ''gamma'', c_embedding = [6, 8]\<rparr>,
                \<lparr>c_id = 4, c_document_id = 0, c_content = ''delta'', c_embedding = [0, 2]\<rparr>],
      clock = 7, next_message_id = 3, next_document_id = 2, next_chunk_id = 5, pending = []\<rparr>"

definition fresh_turn :: turn_state where
  "fresh_turn = \<lparr>turn_db = empty_db, slept = [], tasks = []\<rparr>"

definition sample_chat_env :: chat_env where
  "sample_chat_env =
     \<lparr>select_session_fault = None, commit_session_fault = None, commit_user_fault = None,
      embed_query = (\<lambda>q. Inr [0, 0]),
      select_chunks_fault = None, select_history_fault = None,
      llm = (\<lambda>attempt msgs. Inr ''Hello!''),
      commit_ai_fault = None, add_task_fault = None\<rparr>"

text \<open>The same, but the provider answers every attempt with a quota error.\<close>

definition rate_limited_env :: chat_env where
  "rate_limited_env =
     sample_chat_env\<lparr>llm := (\<lambda>attempt msgs. Inl (Error ''429 RESOURCE_EXHAUSTED: quota exceeded''))\<rparr>"

definition sample_summary_env :: summary_env where
  "sample_summary_env =
     \<lparr>open_fault = None, select_recent_fault = None, select_current_fault = None,
      summarize = (\<lambda>prompt. Inr ''They greeted each other.''),
      update_fault = None, commit_summary_fault = None\<rparr>"

text \<open>A provider that answers with the human and assistant messages it was given.\<close>

fun render_history :: "chat_message list \<Rightarrow> string" where
  "render_history [] = []"
| "render_history (SystemMessage s # rest) = render_history rest"
| "render_history (HumanMessage s # rest) = ''H:'' @ s @ '';'' @ render_history rest"
| "render_history (AIMessage s # rest) = ''A:'' @ s @ '';'' @ render_history rest"

definition echo_chat_env :: chat_env where
  "echo_chat_env = sample_chat_env\<lparr>llm := (\<lambda>attempt msgs. Inr (render_history msgs))\<rparr>"

text \<open>A store whose only session has seven messages, the last one still unanswered.\<close>

definition long_session_db :: database where
  "long_session_db =
     \<lparr>sessions = [\<lparr>s_id = ''A'', s_created_at = 0, s_summary = None\<rparr>],
      messages = [\<lparr>m_id = 0, m_session_id = ''A'', m_role = ''user'', m_content = ''q1'',
                    m_created_at = 1\<rparr>,
                  \<lparr>m_id = 1, m_session_id = ''A'', m_role = ''assistant'', m_content = ''a1'',
                    m_created_at = 2\<rparr>,
                  \<lparr>m_id = 2, m_session_id = ''A'', m_role = ''user'', m_content = ''q2'',
                    m_created_at = 3\<rparr>,
                  \<lparr>m_id = 3, m_session_id = ''A'', m_role = ''assistant'', m_content = ''a2'',
                    m_created_at = 4\<rparr>,
                  \<lparr>m_id = 4, m_session_id = ''A'', m_role = ''user'', m_content = ''q3'',
                    m_created_at = 5\<rparr>,
                  \<lparr>m_id = 5, m_session_id = ''A'', m_role = ''assistant'', m_content = ''a3'',
                    m_created_at = 6\<rparr>,
                  \<lparr>m_id = 6, m_session_id = ''A'', m_role = ''user'', m_content = ''q4'',
                    m_created_at = 7\<rparr>],
      documents = [], chunks = [],
      clock = 8, next_message_id = 7, next_document_id = 0, next_chunk_id = 0, pending = []\<rparr>"

section \<open>Properties of \<open>parse_pdf\<close>\<close>

lemma extract_pages_acc:
  "snd (extract_pages ps acc) =
     acc @ concat (map (\<lambda>p. case p of Inl e \<Rightarrow> [] | Inr None \<Rightarrow> [] | Inr (Some t) \<Rightarrow> t)
                     (takeWhile (\<lambda>p. \<not> isl p) ps))"
  by (induction ps acc rule: extract_pages.induct) auto

lemma parse_pdf_Inr: "parse_pdf (Inr pages) = Inr (snd (extract_pages pages []))"
  by (simp add: parse_pdf_def split: prod.splits option.splits)

lemma parse_pdf_Inl: "parse_pdf (Inl e) = Inr []"
  by (simp add: parse_pdf_def)

text \<open>
  Claim C9. \<open>parse_pdf\<close> is total: whatever the reader does on the bytes, it returns a
  string and raises nothing. When the construction of the reader raises, the result is the
  empty string; when a page raises, the result is the text of the pages before it, so a PDF
  that fails partway gives truncated text and no error (the last conjunct is such a PDF:
  its third page is lost).
\<close>

theorem parse_pdf_total:
  "(\<exists>text. parse_pdf reader = Inr text) \<and>
   parse_pdf (Inl e) = Inr [] \<and>
   parse_pdf (Inr pages) =
     Inr (concat (map (\<lambda>p. case p of Inl e \<Rightarrow> [] | Inr None \<Rightarrow> [] | Inr (Some t) \<Rightarrow> t)
                   (takeWhile (\<lambda>p. \<not> isl p) pages))) \<and>
   parse_pdf (Inr [Inr (Some ''ab''), Inl (Error ''bad page''), Inr (Some ''cd'')]) = Inr ''ab''"
proof -
  have total: "\<exists>text. parse_pdf reader = Inr text"
    by (cases reader) (simp_all add: parse_pdf_Inl parse_pdf_Inr)
  have acc: "parse_pdf (Inr pages) =
     Inr (concat (map (\<lambda>p. case p of Inl e \<Rightarrow> [] | Inr None \<Rightarrow> [] | Inr (Some t) \<Rightarrow> t)
                   (takeWhile (\<lambda>p. \<not> isl p) pages)))"
    by (simp add: parse_pdf_Inr extract_pages_acc)
  have cut: "parse_pdf (Inr [Inr (Some ''ab''), Inl (Error ''bad page''), Inr (Some ''cd'')])
               = Inr ''ab''"
    by (simp add: parse_pdf_Inr)
  from total acc cut show ?thesis by (simp add: parse_pdf_Inl)
qed

section \<open>Properties of \<open>process_file\<close>\<close>

lemmas string_defs = endswith_def lower_def lower_char_def unknown_name_def strip_def isspace_def

lemmas db_defs = db_add_def db_commit_def db_rollback_def db_refresh_document_def

lemma show_nat_400: "show_nat 400 = ''400''"
  by code_simp

lemma sliding_window_step:
  "chunk_overlap < chunk_size \<Longrightarrow> chunk_size < length xs \<Longrightarrow>
   sliding_window chunk_size chunk_overlap xs =
     take chunk_size xs #
     sliding_window chunk_size chunk_overlap (drop (chunk_size - chunk_overlap) xs)"
  by (subst sliding_window.simps) auto

lemma sliding_window_last:
  "xs \<noteq> [] \<Longrightarrow> length xs \<le> chunk_size \<Longrightarrow> sliding_window chunk_size chunk_overlap xs = [xs]"
  by (subst sliding_window.simps) simp

lemma sliding_window_nonempty: "xs \<noteq> [] \<Longrightarrow> sliding_window n k xs \<noteq> []"
  by (subst sliding_window.simps) simp

lemma split_short: "content \<noteq> [] \<Longrightarrow> length content \<le> 800 \<Longrightarrow> split_text content = [content]"
  by (simp add: split_text_def sliding_window_last)

lemma strip_nonempty: "strip content \<noteq> [] \<Longrightarrow> content \<noteq> []"
  by (auto simp: strip_def)

lemma refresh_after_insert:
  "\<exists>d. find (\<lambda>d. d_id d = i) (docs @ [\<lparr>d_id = i, d_session_id = s, d_filename = f,
                                           d_content = c, d_created_at = t\<rparr>]) = Some d"
  by (induction docs) auto

text \<open>
  Claim C7. An upload whose file name ends neither in \<open>.pdf\<close> nor in \<open>.txt\<close> (letter case
  aside) fails with an HTTP 400 error whose detail is the read-error prefix followed by the
  printed unsupported-format exception, and the store is returned exactly as it was: no row
  is written and no transaction is opened.
\<close>

theorem unsupported_format_rejected:
  assumes "\<not> endswith (lower (unknown_name file)) ''.pdf''"
      and "\<not> endswith (lower (unknown_name file)) ''.txt''"
  shows "process_file env file session_id db =
           (Inl (HTTPException 400
                  (''Error reading file: '' @
                   str_exn (HTTPException 400
                              ''Unsupported file format. Only PDF and TXT are supported.''))),
            db)"
  using assms by (simp add: process_file_def read_content_def)

theorem unsupported_format_rejected_witness:
  "\<not> endswith (lower (unknown_name docx_upload)) ''.pdf'' \<and>
   \<not> endswith (lower (unknown_name docx_upload)) ''.txt'' \<and>
   process_file sample_file_env docx_upload ''s1'' two_session_db =
     (Inl (HTTPException 400
            ''Error reading file: 400: Unsupported file format. Only PDF and TXT are supported.''),
      two_session_db)"
proof -
  have a: "\<not> endswith (lower (unknown_name docx_upload)) ''.pdf''"
    by (simp add: docx_upload_def string_defs)
  have b: "\<not> endswith (lower (unknown_name docx_upload)) ''.txt''"
    by (simp add: docx_upload_def string_defs)
  from a b unsupported_format_rejected [OF a b, of sample_file_env "''s1''" two_session_db]
  show ?thesis by (simp add: show_nat_400)
qed

text \<open>
  Claim C6, as stated, fails. On a store that has the session \<open>B\<close>, a PDF that the reader
  cannot open gets exactly the error of a blank text file, the empty-content error, and a
  PDF whose second page cannot be read is ingested: its Document row and a chunk of the
  first page are persisted.
\<close>

theorem extraction_failure_counterexample:
  "map s_id (sessions two_session_db) = [''A'', ''B''] \<and>
   pdf_reader sample_file_env ''junk'' = Inl (Error ''EOF marker not found'') \<and>
   process_file sample_file_env corrupt_pdf_upload ''B'' two_session_db =
     (Inl (HTTPException 400 empty_content_detail), two_session_db) \<and>
   process_file sample_file_env blank_txt_upload ''B'' two_session_db =
     (Inl (HTTPException 400 empty_content_detail), two_session_db) \<and>
   pdf_reader half_read_pdf_env ''junk'' = Inr [Inr (Some ''page one''), Inl (Error ''bad xref'')] \<and>
   process_file half_read_pdf_env corrupt_pdf_upload ''B'' two_session_db =
     (Inr \<lparr>d_id = 2, d_session_id = ''B'', d_filename = ''scan.pdf'', d_content = ''page one'',
            d_created_at = 7\<rparr>,
      two_session_db
        \<lparr>documents := documents two_session_db @
                        [\<lparr>d_id = 2, d_session_id = ''B'', d_filename = ''scan.pdf'',
                          d_content = ''page one'', d_created_at = 7\<rparr>],
         chunks := chunks two_session_db @
                     [\<lparr>c_id = 5, c_document_id = 2, c_content = ''page one'',
                       c_embedding = [8]\<rparr>],
         clock := 9, next_document_id := 3, next_chunk_id := 6\<rparr>)"
proof -
  have s: "map s_id (sessions two_session_db) = [''A'', ''B'']"
    by (simp add: two_session_db_def)
  have a: "pdf_reader sample_file_env ''junk'' = Inl (Error ''EOF marker not found'')"
    by (simp add: sample_file_env_def)
  have b: "process_file sample_file_env corrupt_pdf_upload ''B'' two_session_db =
             (Inl (HTTPException 400 empty_content_detail), two_session_db)"
    by (simp add: process_file_def read_content_def parse_pdf_Inl sample_file_env_def
          corrupt_pdf_upload_def string_defs)
  have c: "process_file sample_file_env blank_txt_upload ''B'' two_session_db =
             (Inl (HTTPException 400 empty_content_detail), two_session_db)"
    by (simp add: process_file_def read_content_def sample_file_env_def blank_txt_upload_def
          string_defs)
  have r: "pdf_reader half_read_pdf_env ''junk'' =
             Inr [Inr (Some ''page one''), Inl (Error ''bad xref'')]"
    by (simp add: half_read_pdf_env_def)
  have d: "process_file half_read_pdf_env corrupt_pdf_upload ''B'' two_session_db =
     (Inr \<lparr>d_id = 2, d_session_id = ''B'', d_filename = ''scan.pdf'', d_content = ''page one'',
            d_created_at = 7\<rparr>,
      two_session_db
        \<lparr>documents := documents two_session_db @
                        [\<lparr>d_id = 2, d_session_id = ''B'', d_filename = ''scan.pdf'',
                          d_content = ''page one'', d_created_at = 7\<rparr>],
         chunks := chunks two_session_db @
                     [\<lparr>c_id = 5, c_document_id = 2, c_content = ''page one'',
                       c_embedding = [8]\<rparr>],
         clock := 9, next_document_id := 3, next_chunk_id := 6\<rparr>)"
    by (simp add: process_file_def read_content_def parse_pdf_Inr half_read_pdf_env_def
          sample_file_env_def corrupt_pdf_upload_def two_session_db_def string_defs ingest_def
          store_chunks_def db_defs split_short Let_def)
  from s a b c r d show ?thesis by (intro conjI)
qed

text \<open>
  Claim C6, amended, in two independent parts. A text upload whose bytes cannot be
  decoded fails with an HTTP 400 read error, which differs from the empty-content error,
  and the store is untouched. A PDF whose extraction fails raises no error of its own:
  when the text that \<open>parse_pdf\<close> returns is blank, the upload fails with the
  empty-content error, the one an empty file gets, and the store is untouched.
\<close>

theorem extraction_failure_outcomes:
  "(endswith (lower (unknown_name ft)) ''.txt'' \<and>
    \<not> endswith (lower (unknown_name ft)) ''.pdf'' \<and>
    file_read ft = Inr raw \<and>
    decode_utf8 env raw = Inl e \<longrightarrow>
      process_file env ft session_id db =
        (Inl (HTTPException 400 (''Error reading file: '' @ str_exn e)), db) \<and>
      HTTPException 400 (''Error reading file: '' @ str_exn e)
        \<noteq> HTTPException 400 empty_content_detail) \<and>
   (endswith (lower (unknown_name fp)) ''.pdf'' \<and>
    file_read fp = Inr pdf_content \<and>
    parse_pdf (pdf_reader env pdf_content) = Inr extracted \<and>
    strip extracted = [] \<longrightarrow>
      process_file env fp session_id db = (Inl (HTTPException 400 empty_content_detail), db))"
proof (intro conjI impI)
  assume "endswith (lower (unknown_name ft)) ''.txt'' \<and>
          \<not> endswith (lower (unknown_name ft)) ''.pdf'' \<and>
          file_read ft = Inr raw \<and> decode_utf8 env raw = Inl e"
  then show "process_file env ft session_id db =
               (Inl (HTTPException 400 (''Error reading file: '' @ str_exn e)), db)"
    by (simp add: process_file_def read_content_def Let_def)
next
  show "HTTPException 400 (''Error reading file: '' @ str_exn e)
          \<noteq> HTTPException 400 empty_content_detail"
    by (simp add: empty_content_detail_def)
next
  assume "endswith (lower (unknown_name fp)) ''.pdf'' \<and>
          file_read fp = Inr pdf_content \<and>
          parse_pdf (pdf_reader env pdf_content) = Inr extracted \<and>
          strip extracted = []"
  then show "process_file env fp session_id db =
               (Inl (HTTPException 400 empty_content_detail), db)"
    by (simp add: process_file_def read_content_def Let_def)
qed

theorem extraction_failure_outcomes_witness:
  "endswith (lower (unknown_name undecodable_txt_upload)) ''.txt'' \<and>
   \<not> endswith (lower (unknown_name undecodable_txt_upload)) ''.pdf'' \<and>
   file_read undecodable_txt_upload = Inr [CHR 0xE9, CHR ''t''] \<and>
   decode_utf8 sample_file_env [CHR 0xE9, CHR ''t''] = Inl (Error ''invalid start byte'') \<and>
   endswith (lower (unknown_name corrupt_pdf_upload)) ''.pdf'' \<and>
   file_read corrupt_pdf_upload = Inr ''junk'' \<and>
   parse_pdf (pdf_reader sample_file_env ''junk'') = Inr [] \<and>
   strip [] = [] \<and>
   process_file sample_file_env undecodable_txt_upload ''A'' two_session_db =
     (Inl (HTTPException 400 ''Error reading file: invalid start byte''), two_session_db) \<and>
   process_file sample_file_env corrupt_pdf_upload ''A'' two_session_db =
     (Inl (HTTPException 400 empty_content_detail), two_session_db)"
proof -
  have h1: "endswith (lower (unknown_name undecodable_txt_upload)) ''.txt''"
    by (simp add: undecodable_txt_upload_def string_defs)
  have h2: "\<not> endswith (lower (unknown_name undecodable_txt_upload)) ''.pdf''"
    by (simp add: undecodable_txt_upload_def string_defs)
  have h3: "file_read undecodable_txt_upload = Inr [CHR 0xE9, CHR ''t'']"
    by (simp add: undecodable_txt_upload_def)
  have h4: "decode_utf8 sample_file_env [CHR 0xE9, CHR ''t''] = Inl (Error ''invalid start byte'')"
    by (simp add: sample_file_env_def)
  have h5: "endswith (lower (unknown_name corrupt_pdf_upload)) ''.pdf''"
    by (simp add: corrupt_pdf_upload_def string_defs)
  have h6: "file_read corrupt_pdf_upload = Inr ''junk''"
    by (simp add: corrupt_pdf_upload_def)
  have h7: "parse_pdf (pdf_reader sample_file_env ''junk'') = Inr []"
    by (simp add: sample_file_env_def parse_pdf_Inl)
  have h8: "strip [] = []"
    by (simp add: strip_def)
  note both = extraction_failure_outcomes
    [of undecodable_txt_upload "[CHR 0xE9, CHR ''t'']" sample_file_env
        "Error ''invalid start byte''" "''A''" two_session_db
        corrupt_pdf_upload "''junk''" "[]"]
  have undecodable: "process_file sample_file_env undecodable_txt_upload ''A'' two_session_db =
               (Inl (HTTPException 400 ''Error reading file: invalid start byte''),
                two_session_db)"
    using conjunct1 [OF both] h1 h2 h3 h4 by simp
  have unreadable: "process_file sample_file_env corrupt_pdf_upload ''A'' two_session_db =
               (Inl (HTTPException 400 empty_content_detail), two_session_db)"
    using conjunct2 [OF both] h5 h6 h7 h8 by simp
  from h1 h2 h3 h4 h5 h6 h7 h8 undecodable unreadable show ?thesis by (intro conjI)
qed

text \<open>
  Claim C2, as stated, fails. On a store that has the session \<open>B\<close>, the embedding call of
  an upload for \<open>B\<close> fails and the upload ends in an HTTP 500 error, yet its Document row
  is in the store afterwards.
\<close>

theorem embedding_failure_counterexample:
  "map s_id (sessions two_session_db) = [''A'', ''B''] \<and>
   embed_documents failing_embed_env (split_text ''hello'') = Inl (Error ''quota'') \<and>
   process_file failing_embed_env txt_upload ''B'' two_session_db =
     (Inl (HTTPException 500 ''Internal Server Error processing file: quota''),
      two_session_db
        \<lparr>documents := documents two_session_db @
                        [\<lparr>d_id = 2, d_session_id = ''B'', d_filename = ''a.txt'',
                          d_content = ''hello'', d_created_at = 7\<rparr>],
         clock := 8, next_document_id := 3\<rparr>) \<and>
   documents (snd (process_file failing_embed_env txt_upload ''B'' two_session_db))
     \<noteq> documents two_session_db"
proof -
  have s: "map s_id (sessions two_session_db) = [''A'', ''B'']"
    by (simp add: two_session_db_def)
  have e: "embed_documents failing_embed_env (split_text ''hello'') = Inl (Error ''quota'')"
    by (simp add: failing_embed_env_def)
  have r: "process_file failing_embed_env txt_upload ''B'' two_session_db =
     (Inl (HTTPException 500 ''Internal Server Error processing file: quota''),
      two_session_db
        \<lparr>documents := documents two_session_db @
                        [\<lparr>d_id = 2, d_session_id = ''B'', d_filename = ''a.txt'',
                          d_content = ''hello'', d_created_at = 7\<rparr>],
         clock := 8, next_document_id := 3\<rparr>)"
    by (simp add: process_file_def read_content_def failing_embed_env_def sample_file_env_def
          txt_upload_def two_session_db_def string_defs ingest_def store_chunks_def db_defs
          split_short Let_def)
  have n: "documents (snd (process_file failing_embed_env txt_upload ''B'' two_session_db))
             \<noteq> documents two_session_db"
    unfolding r by simp
  from s e r n show ?thesis by (intro conjI)
qed

text \<open>
  Claim C2, amended. When the batched embedding call of an upload fails, the upload
  fails with an HTTP 500 error and no DocumentChunk row is written; the Document row,
  committed before the text is split, stays in the store, since the rollback drops the
  open transaction only.
\<close>

theorem embedding_failure_keeps_document:
  assumes "read_content env file (unknown_name file) = Inr content"
      and "strip content \<noteq> []"
      and "pending db = []"
      and "commit_document_fault env = None"
      and "refresh_fault env = None"
      and "embed_documents env (split_text content) = Inl e"
      and "rollback_fault env = None"
  shows "fst (process_file env file session_id db) =
           Inl (HTTPException 500 (''Internal Server Error processing file: '' @ str_exn e)) \<and>
         documents (snd (process_file env file session_id db)) =
           documents db @ [\<lparr>d_id = next_document_id db, d_session_id = session_id,
                             d_filename = unknown_name file, d_content = content,
                             d_created_at = clock db\<rparr>] \<and>
         chunks (snd (process_file env file session_id db)) = chunks db \<and>
         pending (snd (process_file env file session_id db)) = []"
proof -
  let ?row = "\<lparr>d_id = next_document_id db, d_session_id = session_id,
                d_filename = unknown_name file, d_content = content, d_created_at = clock db\<rparr>"
  let ?db2 = "db\<lparr>documents := documents db @ [?row],
                  next_document_id := Suc (next_document_id db),
                  clock := Suc (clock db), pending := []\<rparr>"
  obtain d where d: "find (\<lambda>d. d_id d = next_document_id db) (documents db @ [?row]) = Some d"
    using refresh_after_insert by blast
  have chunks_ne: "split_text content \<noteq> []"
    using assms(2) by (simp add: split_text_def sliding_window_nonempty strip_nonempty)
  have ing: "ingest env (unknown_name file) content session_id db = (Inl e, ?db2)"
    using assms(3-6) d chunks_ne
    by (simp add: ingest_def store_chunks_def db_defs Let_def)
  show ?thesis
    using assms(1,2,7) ing by (simp add: process_file_def db_rollback_def Let_def)
qed

theorem embedding_failure_keeps_document_witness:
  "read_content failing_embed_env txt_upload (unknown_name txt_upload) = Inr ''hello'' \<and>
   strip ''hello'' \<noteq> [] \<and>
   pending two_session_db = [] \<and>
   commit_document_fault failing_embed_env = None \<and>
   refresh_fault failing_embed_env = None \<and>
   embed_documents failing_embed_env (split_text ''hello'') = Inl (Error ''quota'') \<and>
   rollback_fault failing_embed_env = None \<and>
   fst (process_file failing_embed_env txt_upload ''A'' two_session_db) =
     Inl (HTTPException 500 ''Internal Server Error processing file: quota'') \<and>
   map d_id (documents (snd (process_file failing_embed_env txt_upload ''A'' two_session_db)))
     = [0, 1, 2] \<and>
   chunks (snd (process_file failing_embed_env txt_upload ''A'' two_session_db)) =
     chunks two_session_db"
proof -
  have h1: "read_content failing_embed_env txt_upload (unknown_name txt_upload) = Inr ''hello''"
    by (simp add: read_content_def failing_embed_env_def sample_file_env_def txt_upload_def
          string_defs)
  have h2: "strip ''hello'' \<noteq> []"
    by (simp add: strip_def isspace_def)
  have h3: "pending two_session_db = []"
    by (simp add: two_session_db_def)
  have h4: "commit_document_fault failing_embed_env = None"
    by (simp add: failing_embed_env_def sample_file_env_def)
  have h5: "refresh_fault failing_embed_env = None"
    by (simp add: failing_embed_env_def sample_file_env_def)
  have h6: "embed_documents failing_embed_env (split_text ''hello'') = Inl (Error ''quota'')"
    by (simp add: failing_embed_env_def)
  have h7: "rollback_fault failing_embed_env = None"
    by (simp add: failing_embed_env_def sample_file_env_def)
  have docs: "map d_id (documents two_session_db) = [0, 1]" "next_document_id two_session_db = 2"
    by (simp_all add: two_session_db_def)
  from embedding_failure_keeps_document [OF h1 h2 h3 h4 h5 h6 h7, of "''A''"]
    h1 h2 h3 h4 h5 h6 h7 docs
  show ?thesis by simp
qed

text \<open>
  Claim C3. A text of 2000 characters is split into exactly 3 chunks, the windows that
  start at the characters 0, 700 and 1400; none is longer than 800 characters, and the
  first 100 characters of the second and of the third chunk are the last 100 characters
  of the chunk before.
\<close>

theorem split_text_2000_chars:
  assumes "length content = 2000"
  shows "split_text content = [take 800 content, take 800 (drop 700 content), drop 1400 content] \<and>
         length (split_text content) = 3 \<and>
         (\<forall>c \<in> set (split_text content). length c \<le> 800) \<and>
         take 100 (split_text content ! 1) =
           drop (length (split_text content ! 0) - 100) (split_text content ! 0) \<and>
         take 100 (split_text content ! 2) =
           drop (length (split_text content ! 1) - 100) (split_text content ! 1) \<and>
         length (take 100 (split_text content ! 1)) = 100 \<and>
         length (take 100 (split_text content ! 2)) = 100"
proof -
  have "sliding_window 800 100 content = take 800 content # sliding_window 800 100 (drop 700 content)"
    using assms sliding_window_step [of 100 800 content] by simp
  moreover have "sliding_window 800 100 (drop 700 content) =
      take 800 (drop 700 content) # sliding_window 800 100 (drop 700 (drop 700 content))"
    using assms sliding_window_step [of 100 800 "drop 700 content"] by simp
  moreover have "sliding_window 800 100 (drop 1400 content) = [drop 1400 content]"
    using assms sliding_window_last [of "drop 1400 content" 800 100] by auto
  ultimately have
    "split_text content = [take 800 content, take 800 (drop 700 content), drop 1400 content]"
    by (simp add: split_text_def)
  with assms show ?thesis by (simp add: drop_take)
qed

theorem split_text_2000_chars_witness:
  "length (concat (replicate 200 ''0123456789'')) = 2000 \<and>
   length (split_text (concat (replicate 200 ''0123456789''))) = 3 \<and>
   map length (split_text (concat (replicate 200 ''0123456789''))) = [800, 800, 600] \<and>
   split_text (concat (replicate 200 ''0123456789'')) ! 2 =
     drop 1400 (concat (replicate 200 ''0123456789''))"
proof -
  have h: "length (concat (replicate 200 ''0123456789'')) = 2000"
    by (simp add: length_concat sum_list_replicate)
  from h split_text_2000_chars [OF h] show ?thesis by simp
qed

section \<open>Properties of the retrieval query\<close>

lemma nearest_chunks_candidates:
  assumes "c \<in> set (nearest_chunks session_id qv db)"
  shows "c \<in> set (chunks db) \<and>
         (\<exists>d \<in> set (documents db). c_document_id c = d_id d \<and> d_session_id d = session_id)"
proof -
  let ?joined = "[c. c \<leftarrow> chunks db, d \<leftarrow> documents db,
                     c_document_id c = d_id d \<and> d_session_id d = session_id]"
  have "c \<in> set (sort_key (\<lambda>c. l2_distance (c_embedding c) qv) ?joined)"
    using assms unfolding nearest_chunks_def by (rule in_set_takeD)
  then have "c \<in> set ?joined" by simp
  then show ?thesis by auto
qed

lemma nearest_chunks_sorted:
  "sorted (map (\<lambda>c. l2_distance (c_embedding c) qv) (nearest_chunks session_id qv db))"
  unfolding nearest_chunks_def take_map [symmetric] by (rule sorted_wrt_take) simp

lemma unique_owner:
  assumes "distinct (map d_id docs)" "d \<in> set docs" "d' \<in> set docs" "d_id d = d_id d'"
  shows "d = d'"
  using assms by (meson distinct_map inj_onD)

text \<open>
  Claim C4. For every session identifier and query vector, the retrieval query returns at
  most 3 chunks, in ascending order of their Euclidean distance to the query vector, and
  each of them is a stored chunk whose Document belongs to the given session; with
  \<open>Document.id\<close> a primary key, no Document of another session owns a returned chunk.
\<close>

theorem retrieval_sorted_and_isolated:
  assumes "distinct (map d_id (documents db))"
  shows "length (nearest_chunks session_id qv db) \<le> 3 \<and>
         sorted (map (\<lambda>c. l2_distance (c_embedding c) qv) (nearest_chunks session_id qv db)) \<and>
         (\<forall>c \<in> set (nearest_chunks session_id qv db).
            c \<in> set (chunks db) \<and>
            (\<exists>d \<in> set (documents db). d_id d = c_document_id c \<and> d_session_id d = session_id) \<and>
            (\<forall>d \<in> set (documents db). d_id d = c_document_id c \<longrightarrow> d_session_id d = session_id))"
proof -
  have len: "length (nearest_chunks session_id qv db) \<le> 3"
    by (simp add: nearest_chunks_def)
  have own: "c \<in> set (chunks db) \<and>
            (\<exists>d \<in> set (documents db). d_id d = c_document_id c \<and> d_session_id d = session_id) \<and>
            (\<forall>d \<in> set (documents db). d_id d = c_document_id c \<longrightarrow> d_session_id d = session_id)"
    if c: "c \<in> set (nearest_chunks session_id qv db)" for c
  proof -
    from nearest_chunks_candidates [OF c] obtain d0 where
      d0: "c \<in> set (chunks db)" "d0 \<in> set (documents db)" "c_document_id c = d_id d0"
          "d_session_id d0 = session_id"
      by blast
    have "d_session_id d = session_id" if "d \<in> set (documents db)" "d_id d = c_document_id c" for d
      using unique_owner [OF assms that(1) d0(2)] that(2) d0(3,4) by simp
    with d0 show ?thesis by auto
  qed
  from own have "\<forall>c \<in> set (nearest_chunks session_id qv db).
            c \<in> set (chunks db) \<and>
            (\<exists>d \<in> set (documents db). d_id d = c_document_id c \<and> d_session_id d = session_id) \<and>
            (\<forall>d \<in> set (documents db). d_id d = c_document_id c \<longrightarrow> d_session_id d = session_id)"
    by (rule ballI)
  with len nearest_chunks_sorted [of qv session_id db] show ?thesis by (intro conjI)
qed

lemma joined_two_session_db:
  "[c. c \<leftarrow> chunks two_session_db, d \<leftarrow> documents two_session_db,
       c_document_id c = d_id d \<and> d_session_id d = ''A''] =
   [\<lparr>c_id = 0, c_document_id = 0, c_content = ''alpha'', c_embedding = [3, 4]\<rparr>,
    \<lparr>c_id = 2, c_document_id = 0, c_content = ''beta'', c_embedding = [1, 0]\<rparr>,
    \<lparr>c_id = 3, c_document_id = 0, c_content = ''gamma'', c_embedding = [6, 8]\<rparr>,
    \<lparr>c_id = 4, c_document_id = 0, c_content = ''delta'', c_embedding = [0, 2]\<rparr>]"
  by (simp add: two_session_db_def)

lemma nearest_two_session_db:
  "map c_id (nearest_chunks ''A'' [0, 0] two_session_db) = [2, 4, 0]"
  unfolding nearest_chunks_def joined_two_session_db by (simp add: l2_distance_def)

theorem retrieval_sorted_and_isolated_witness:
  "distinct (map d_id (documents two_session_db)) \<and>
   map c_id (nearest_chunks ''A'' [0, 0] two_session_db) = [2, 4, 0] \<and>
   length (nearest_chunks ''A'' [0, 0] two_session_db) \<le> 3 \<and>
   sorted (map (\<lambda>c. l2_distance (c_embedding c) [0, 0]) (nearest_chunks ''A'' [0, 0] two_session_db))"
proof -
  have h: "distinct (map d_id (documents two_session_db))"
    by (simp add: two_session_db_def)
  from retrieval_sorted_and_isolated [OF h, of "''A''" "[0, 0]"] h nearest_two_session_db
  show ?thesis by simp
qed

section \<open>Properties of \<open>process_chat\<close>\<close>

lemma upt_max_retries: "[0..<max_retries] = [0, 1, 2]"
  by (simp add: max_retries_def upt_rec)

lemma invoke_with_retry_result:
  "fst (invoke_with_retry env msgs attempts delay dflt sl) = Inr reply \<Longrightarrow>
     (attempts \<noteq> [] \<and> last attempts < max_retries - 1 \<and> reply = dflt)
     \<or> (\<exists>attempt. llm env attempt msgs = Inr reply)
     \<or> (attempts = [] \<and> reply = dflt)"
  by (induction attempts arbitrary: delay sl) (auto split: sum.splits if_splits)

lemma invoke_three:
  "fst (invoke_with_retry env msgs [0..<max_retries] delay dflt sl) = Inr reply \<Longrightarrow>
     \<exists>attempt. llm env attempt msgs = Inr reply"
  using invoke_with_retry_result [of env msgs "[0..<max_retries]" delay dflt sl reply]
  by (simp add: upt_max_retries) (simp add: max_retries_def)

lemma finish_turn_result:
  "fst (finish_turn env session_id r w) = Inr reply \<Longrightarrow> reply = r"
  by (auto simp: finish_turn_def split: prod.splits sum.splits option.splits)

lemma body_reply:
  assumes "fst (process_chat_body env session_id user_query w) = Inr reply"
  shows "\<exists>attempt msgs. llm env attempt msgs = Inr reply"
proof -
  from assms obtain summary db2 hist sl r where
    inv: "invoke_with_retry env
           (SystemMessage (system_prompt (retrieve_context env session_id user_query db2) summary)
              # history_messages hist)
           [0..<max_retries] 5 overloaded_reply (slept w) = (Inr r, sl)"
    and fin: "fst (finish_turn env session_id r (w\<lparr>turn_db := db2, slept := sl\<rparr>)) = Inr reply"
    by (auto simp: process_chat_body_def Let_def split: prod.splits sum.splits)
  from fin have "reply = r" by (rule finish_turn_result)
  with inv invoke_three [of env _ 5 overloaded_reply "slept w" r] show ?thesis
    by (metis fst_conv)
qed

lemma three_quota_errors:
  assumes "llm env 0 msgs = Inl e0" "is_quota_error e0"
      and "llm env 1 msgs = Inl e1" "is_quota_error e1"
      and "llm env 2 msgs = Inl e2"
  shows "invoke_with_retry env msgs [0..<max_retries] 5 dflt sl = (Inl e2, sl @ [5, 10])"
  using assms by (simp add: upt_max_retries) (simp add: max_retries_def)

lemma quota_text: "is_quota_error (Error ''429 RESOURCE_EXHAUSTED: quota exceeded'')"
  by (simp add: is_quota_error_def)

text \<open>
  Claim C10. \<open>process_chat\<close> never raises: for every session id, query, store and behaviour
  of the collaborators it returns a string, which is the fixed apology or a reply of the
  provider. A failure of the session lookup (stage 1) or of the commit of the user message
  (stage 2) gives the apology as well, so the route \<open>/chat\<close> never takes its error branch.
\<close>

theorem process_chat_total:
  "(\<exists>reply. fst (process_chat env session_id user_query w) = Inr reply \<and>
        (reply = internal_error_reply \<or> (\<exists>attempt msgs. llm env attempt msgs = Inr reply))) \<and>
   fst (process_chat (env\<lparr>select_session_fault := Some e\<rparr>) session_id user_query w)
     = Inr internal_error_reply \<and>
   fst (process_chat (env\<lparr>commit_user_fault := Some e\<rparr>) session_id user_query w)
     = Inr internal_error_reply \<and>
   (\<exists>response. fst (chat_endpoint env session_id user_query w) = Inr response)"
proof -
  have a: "\<exists>reply. fst (process_chat env session_id user_query w) = Inr reply \<and>
        (reply = internal_error_reply \<or> (\<exists>attempt msgs. llm env attempt msgs = Inr reply))"
  proof (cases "fst (process_chat_body env session_id user_query w)")
    case (Inl e)
    then show ?thesis by (auto simp: process_chat_def split: prod.splits)
  next
    case (Inr reply)
    with body_reply [OF Inr] show ?thesis by (auto simp: process_chat_def split: prod.splits)
  qed
  have b: "fst (process_chat (env\<lparr>select_session_fault := Some e\<rparr>) session_id user_query w)
     = Inr internal_error_reply"
    by (simp add: process_chat_def process_chat_body_def ensure_session_def)
  have c: "fst (process_chat (env\<lparr>commit_user_fault := Some e\<rparr>) session_id user_query w)
     = Inr internal_error_reply"
    by (simp add: process_chat_def process_chat_body_def save_user_message_def db_commit_def
          split: prod.splits sum.splits)
  from a have d: "\<exists>response. fst (chat_endpoint env session_id user_query w) = Inr response"
    by (auto simp: chat_endpoint_def split: prod.splits sum.splits)
  from a b c d show ?thesis by (intro conjI)
qed

text \<open>
  Claim C1, as stated, fails. The provider answers all three attempts with a quota error;
  the turn sleeps 5 and 10 seconds and returns the internal-error apology, not the
  overloaded message.
\<close>

theorem rate_limit_counterexample:
  "llm rate_limited_env = (\<lambda>attempt msgs. Inl (Error ''429 RESOURCE_EXHAUSTED: quota exceeded'')) \<and>
   is_quota_error (Error ''429 RESOURCE_EXHAUSTED: quota exceeded'') \<and>
   process_chat rate_limited_env ''s1'' ''hi'' fresh_turn =
     (Inr internal_error_reply,
      \<lparr>turn_db = empty_db\<lparr>sessions := [\<lparr>s_id = ''s1'', s_created_at = 0, s_summary = None\<rparr>],
                          messages := [\<lparr>m_id = 0, m_session_id = ''s1'', m_role = ''user'',
                                        m_content = ''hi'', m_created_at = 1\<rparr>],
                          clock := 2, next_message_id := 1\<rparr>,
       slept = [5, 10], tasks = []\<rparr>) \<and>
   fst (process_chat rate_limited_env ''s1'' ''hi'' fresh_turn) \<noteq> Inr overloaded_reply"
proof -
  have a: "llm rate_limited_env =
             (\<lambda>attempt msgs. Inl (Error ''429 RESOURCE_EXHAUSTED: quota exceeded''))"
    by (simp add: rate_limited_env_def)
  have b: "process_chat rate_limited_env ''s1'' ''hi'' fresh_turn =
     (Inr internal_error_reply,
      \<lparr>turn_db = empty_db\<lparr>sessions := [\<lparr>s_id = ''s1'', s_created_at = 0, s_summary = None\<rparr>],
                          messages := [\<lparr>m_id = 0, m_session_id = ''s1'', m_role = ''user'',
                                        m_content = ''hi'', m_created_at = 1\<rparr>],
                          clock := 2, next_message_id := 1\<rparr>,
       slept = [5, 10], tasks = []\<rparr>)"
    by (simp add: process_chat_def process_chat_body_def ensure_session_def save_user_message_def
          read_history_def rate_limited_env_def sample_chat_env_def fresh_turn_def empty_db_def
          scalar_one_or_none_def db_commit_def db_add_def Let_def upt_max_retries quota_text
          numeral_2_eq_2)
       (simp add: max_retries_def)
  have c: "internal_error_reply \<noteq> overloaded_reply"
    by (simp add: internal_error_reply_def overloaded_reply_def)
  from a b c quota_text show ?thesis by simp
qed

text \<open>
  Claim C1, amended. In a turn whose stages 1, 2 and 4 succeed and in which the provider
  signals a rate-limit error on three consecutive attempts, the invocation sleeps 5 and
  then 10 seconds between the attempts; on exhaustion the error is raised inside
  \<open>process_chat\<close> and absorbed by its handler, so the caller gets the fixed internal-error
  apology (not the overloaded message) and no exception; no assistant message is saved and
  no summary update is scheduled.
\<close>

theorem rate_limit_exhaustion:
  assumes "ensure_session env session_id (turn_db w) = (Inr session_summary, db1)"
      and "save_user_message env session_id user_query db1 = (Inr (), db2)"
      and "read_history env session_id db2 = Inr history_records"
      and "\<forall>attempt < 3. \<forall>msgs. \<exists>e. llm env attempt msgs = Inl e \<and> is_quota_error e"
  shows "fst (process_chat env session_id user_query w) = Inr internal_error_reply \<and>
         internal_error_reply \<noteq> overloaded_reply \<and>
         slept (snd (process_chat env session_id user_query w)) = slept w @ [5, 10] \<and>
         turn_db (snd (process_chat env session_id user_query w)) = db2 \<and>
         tasks (snd (process_chat env session_id user_query w)) = tasks w"
proof -
  let ?msgs = "SystemMessage (system_prompt (retrieve_context env session_id user_query db2)
                                session_summary) # history_messages history_records"
  have all: "\<exists>e. llm env attempt ?msgs = Inl e \<and> is_quota_error e" if "attempt < 3" for attempt
    using assms(4) that by blast
  from all [of 0] obtain e0 where e0: "llm env 0 ?msgs = Inl e0" "is_quota_error e0"
    by auto
  from all [of 1] obtain e1 where e1: "llm env 1 ?msgs = Inl e1" "is_quota_error e1"
    by auto
  from all [of 2] obtain e2 where e2: "llm env 2 ?msgs = Inl e2" "is_quota_error e2"
    by auto
  have loop: "invoke_with_retry env ?msgs [0..<max_retries] 5 overloaded_reply (slept w)
                = (Inl e2, slept w @ [5, 10])"
    using e0 e1 e2(1) by (rule three_quota_errors)
  have body: "process_chat_body env session_id user_query w =
                (Inl e2, w\<lparr>turn_db := db2, slept := slept w @ [5, 10]\<rparr>)"
    using assms(1-3) loop by (simp add: process_chat_body_def Let_def)
  have "internal_error_reply \<noteq> overloaded_reply"
    by (simp add: internal_error_reply_def overloaded_reply_def)
  then show ?thesis using body by (simp add: process_chat_def)
qed

theorem rate_limit_exhaustion_witness:
  "ensure_session rate_limited_env ''A'' two_session_db = (Inr [], two_session_db) \<and>
   fst (save_user_message rate_limited_env ''A'' ''more?'' two_session_db) = Inr () \<and>
   llm rate_limited_env = (\<lambda>attempt msgs. Inl (Error ''429 RESOURCE_EXHAUSTED: quota exceeded'')) \<and>
   is_quota_error (Error ''429 RESOURCE_EXHAUSTED: quota exceeded'') \<and>
   fst (process_chat rate_limited_env ''A'' ''more?''
          \<lparr>turn_db = two_session_db, slept = [], tasks = []\<rparr>) = Inr internal_error_reply \<and>
   slept (snd (process_chat rate_limited_env ''A'' ''more?''
          \<lparr>turn_db = two_session_db, slept = [], tasks = []\<rparr>)) = [5, 10] \<and>
   tasks (snd (process_chat rate_limited_env ''A'' ''more?''
          \<lparr>turn_db = two_session_db, slept = [], tasks = []\<rparr>)) = []"
proof -
  let ?w = "\<lparr>turn_db = two_session_db, slept = [], tasks = []\<rparr>"
  let ?db2 = "snd (save_user_message rate_limited_env ''A'' ''more?'' two_session_db)"
  have h1: "ensure_session rate_limited_env ''A'' (turn_db ?w) = (Inr [], two_session_db)"
    by (simp add: ensure_session_def rate_limited_env_def sample_chat_env_def two_session_db_def
          scalar_one_or_none_def)
  have s2: "fst (save_user_message rate_limited_env ''A'' ''more?'' two_session_db) = Inr ()"
    by (simp add: save_user_message_def rate_limited_env_def sample_chat_env_def db_commit_def)
  then have h2: "save_user_message rate_limited_env ''A'' ''more?'' two_session_db = (Inr (), ?db2)"
    by (metis prod.collapse)
  have h3: "read_history rate_limited_env ''A'' ?db2 = Inr (rev (last_messages 6 ''A'' ?db2))"
    by (simp add: read_history_def rate_limited_env_def sample_chat_env_def)
  have l: "llm rate_limited_env =
             (\<lambda>attempt msgs. Inl (Error ''429 RESOURCE_EXHAUSTED: quota exceeded''))"
    by (simp add: rate_limited_env_def)
  have h4: "\<forall>attempt < 3. \<forall>msgs. \<exists>e. llm rate_limited_env attempt msgs = Inl e \<and> is_quota_error e"
    by (simp add: l quota_text)
  from rate_limit_exhaustion [OF h1 h2 h3 h4] h1 s2 l quota_text
  show ?thesis by simp
qed

section \<open>Properties of \<open>update_summary\<close>\<close>

lemma last_messages_pending [simp]:
  "last_messages n session_id (db\<lparr>pending := p\<rparr>) = last_messages n session_id db"
  by (simp add: last_messages_def)

lemma write_summary_cases:
  assumes "pending session = []"
  shows "(fst (write_summary env session_id recent session) = Inr () \<and>
          select_current_fault env = None \<and> update_fault env = None \<and>
          commit_summary_fault env = None \<and>
          (\<exists>prompt new_summary. summarize env prompt = Inr new_summary \<and>
             sessions (snd (write_summary env session_id recent session)) =
               map (\<lambda>s. if s_id s = session_id then s\<lparr>s_summary := Some new_summary\<rparr> else s)
                   (sessions session))) \<or>
         ((\<exists>e. fst (write_summary env session_id recent session) = Inl e) \<and>
          sessions (snd (write_summary env session_id recent session)) = sessions session)"
  using assms
  by (auto simp: write_summary_def db_commit_def db_add_def Let_def
           split: option.splits sum.splits)

text \<open>
  Claim C5. A consolidation run never raises. When the session has no messages the
  summaries are unchanged; when any step of the run raises the summaries are unchanged;
  and when a summary has changed then messages were fetched, every step of the run
  succeeded, and the change is the new summary of the provider written to the rows of
  this session.
\<close>

theorem update_summary_only_on_success:
  "fst (update_summary env session_id store) = Inr () \<and>
   (last_messages 10 session_id store = [] \<longrightarrow>
      sessions (snd (update_summary env session_id store)) = sessions store) \<and>
   ((\<exists>e. fst (update_summary_body env session_id store) = Inl e) \<longrightarrow>
      sessions (snd (update_summary env session_id store)) = sessions store) \<and>
   (sessions (snd (update_summary env session_id store)) \<noteq> sessions store \<longrightarrow>
      last_messages 10 session_id store \<noteq> [] \<and>
      open_fault env = None \<and> select_recent_fault env = None \<and>
      select_current_fault env = None \<and> update_fault env = None \<and>
      commit_summary_fault env = None \<and>
      (\<exists>prompt new_summary. summarize env prompt = Inr new_summary \<and>
         sessions (snd (update_summary env session_id store)) =
           map (\<lambda>s. if s_id s = session_id then s\<lparr>s_summary := Some new_summary\<rparr> else s)
               (sessions store)))"
proof -
  have ret: "fst (update_summary env session_id store) = Inr ()"
    by (simp add: update_summary_def split: prod.splits sum.splits)
  have noop: "sessions (snd (update_summary env session_id store)) = sessions store"
    if "last_messages 10 session_id store = []"
    using that
    by (simp add: update_summary_def update_summary_body_def Let_def split: option.splits)
  have p: "pending (store\<lparr>pending := []\<rparr>) = []" by simp
  have failed: "sessions (snd (update_summary env session_id store)) = sessions store"
    if "\<exists>e. fst (update_summary_body env session_id store) = Inl e"
  proof -
    from that obtain e where e: "fst (update_summary_body env session_id store) = Inl e" ..
    from e write_summary_cases [OF p, of env session_id "rev (last_messages 10 session_id store)"]
    show ?thesis
      by (auto simp: update_summary_def update_summary_body_def Let_def
               split: option.splits if_splits prod.splits sum.splits)
  qed
  have only: "last_messages 10 session_id store \<noteq> [] \<and>
      open_fault env = None \<and> select_recent_fault env = None \<and>
      select_current_fault env = None \<and> update_fault env = None \<and>
      commit_summary_fault env = None \<and>
      (\<exists>prompt new_summary. summarize env prompt = Inr new_summary \<and>
         sessions (snd (update_summary env session_id store)) =
           map (\<lambda>s. if s_id s = session_id then s\<lparr>s_summary := Some new_summary\<rparr> else s)
               (sessions store))"
    if changed: "sessions (snd (update_summary env session_id store)) \<noteq> sessions store"
  proof -
    from changed noop have msgs: "last_messages 10 session_id store \<noteq> []" by blast
    from changed have o: "open_fault env = None"
      by (cases "open_fault env") (auto simp: update_summary_def update_summary_body_def)
    from changed o have r: "select_recent_fault env = None"
      by (cases "select_recent_fault env")
         (auto simp: update_summary_def update_summary_body_def Let_def)
    let ?session = "store\<lparr>pending := []\<rparr>"
    let ?recent = "rev (last_messages 10 session_id store)"
    have run: "update_summary env session_id store =
                 (Inr (), (snd (write_summary env session_id ?recent ?session))\<lparr>pending := []\<rparr>)"
      using o r msgs
      by (simp add: update_summary_def update_summary_body_def Let_def split: prod.splits sum.splits)
    from write_summary_cases [OF p, of env session_id ?recent] changed run
    show ?thesis using msgs o r by auto
  qed
  from ret noop failed only show ?thesis by blast
qed

lemma sample_summary_run:
  "sessions (snd (update_summary sample_summary_env ''A'' two_session_db)) =
     [\<lparr>s_id = ''A'', s_created_at = 0, s_summary = Some ''They greeted each other.''\<rparr>,
      \<lparr>s_id = ''B'', s_created_at = 1, s_summary = Some ''talked about tea''\<rparr>]"
  by (simp add: update_summary_def update_summary_body_def write_summary_def
        sample_summary_env_def two_session_db_def last_messages_def scalar_one_or_none_def
        db_commit_def db_add_def Let_def)

lemma failing_summary_run:
  "fst (update_summary_body
          (sample_summary_env\<lparr>commit_summary_fault := Some (Error ''connection lost'')\<rparr>)
          ''A'' two_session_db) = Inl (Error ''connection lost'')"
  by (simp add: update_summary_body_def write_summary_def
        sample_summary_env_def two_session_db_def last_messages_def scalar_one_or_none_def
        db_commit_def db_add_def Let_def)

theorem update_summary_only_on_success_witness:
  "fst (update_summary sample_summary_env ''A'' two_session_db) = Inr () \<and>
   last_messages 10 ''C'' two_session_db = [] \<and>
   sessions (snd (update_summary sample_summary_env ''C'' two_session_db))
     = sessions two_session_db \<and>
   fst (update_summary_body
          (sample_summary_env\<lparr>commit_summary_fault := Some (Error ''connection lost'')\<rparr>)
          ''A'' two_session_db) = Inl (Error ''connection lost'') \<and>
   sessions (snd (update_summary
          (sample_summary_env\<lparr>commit_summary_fault := Some (Error ''connection lost'')\<rparr>)
          ''A'' two_session_db)) = sessions two_session_db \<and>
   sessions (snd (update_summary sample_summary_env ''A'' two_session_db)) =
     [\<lparr>s_id = ''A'', s_created_at = 0, s_summary = Some ''They greeted each other.''\<rparr>,
      \<lparr>s_id = ''B'', s_created_at = 1, s_summary = Some ''talked about tea''\<rparr>] \<and>
   sessions (snd (update_summary sample_summary_env ''A'' two_session_db))
     \<noteq> sessions two_session_db \<and>
   last_messages 10 ''A'' two_session_db \<noteq> [] \<and>
   commit_summary_fault sample_summary_env = None"
proof -
  let ?failing = "sample_summary_env\<lparr>commit_summary_fault := Some (Error ''connection lost'')\<rparr>"
  note ok = update_summary_only_on_success [of sample_summary_env "''A''" two_session_db]
  note quiet = update_summary_only_on_success [of sample_summary_env "''C''" two_session_db]
  note broken = update_summary_only_on_success [of ?failing "''A''" two_session_db]
  have ret: "fst (update_summary sample_summary_env ''A'' two_session_db) = Inr ()"
    using ok by (rule conjunct1)
  have none: "last_messages 10 ''C'' two_session_db = []"
    by (simp add: last_messages_def two_session_db_def)
  have noop: "sessions (snd (update_summary sample_summary_env ''C'' two_session_db))
                = sessions two_session_db"
    using conjunct1 [OF conjunct2 [OF quiet]] none by (rule mp)
  have raised: "\<exists>e. fst (update_summary_body ?failing ''A'' two_session_db) = Inl e"
    using failing_summary_run by (rule exI)
  have kept: "sessions (snd (update_summary ?failing ''A'' two_session_db))
                = sessions two_session_db"
    using conjunct1 [OF conjunct2 [OF conjunct2 [OF broken]]] raised by (rule mp)
  have changed: "sessions (snd (update_summary sample_summary_env ''A'' two_session_db))
                   \<noteq> sessions two_session_db"
    unfolding sample_summary_run by (simp add: two_session_db_def)
  have "last_messages 10 ''A'' two_session_db \<noteq> [] \<and>
      open_fault sample_summary_env = None \<and> select_recent_fault sample_summary_env = None \<and>
      select_current_fault sample_summary_env = None \<and> update_fault sample_summary_env = None \<and>
      commit_summary_fault sample_summary_env = None \<and>
      (\<exists>prompt new_summary. summarize sample_summary_env prompt = Inr new_summary \<and>
         sessions (snd (update_summary sample_summary_env ''A'' two_session_db)) =
           map (\<lambda>s. if s_id s = ''A'' then s\<lparr>s_summary := Some new_summary\<rparr> else s)
               (sessions two_session_db))"
    using conjunct2 [OF conjunct2 [OF conjunct2 [OF ok]]] changed by (rule mp)
  then have msgs: "last_messages 10 ''A'' two_session_db \<noteq> []"
    and commit: "commit_summary_fault sample_summary_env = None"
    by blast+
  from ret none noop failing_summary_run kept sample_summary_run changed msgs commit
  show ?thesis by (intro conjI)
qed
section \<open>Properties of the memory read\<close>

lemma insort_key_append_max:
  "f x \<le> f y \<Longrightarrow> insort_key f x (zs @ [y]) = insort_key f x zs @ [y]"
  by (induction zs) auto

lemma sort_key_append_max:
  "\<forall>x \<in> set xs. f x \<le> f y \<Longrightarrow> sort_key f (xs @ [y]) = sort_key f xs @ [y]"
  by (induction xs) (simp_all add: insort_key_append_max)

lemma ensure_session_keeps_messages:
  assumes "ensure_session env session_id db = (Inr summary, db1)" and "pending db = []"
  shows "messages db1 = messages db \<and> clock db \<le> clock db1 \<and> pending db1 = [] \<and>
         next_message_id db1 = next_message_id db"
  using assms
  by (auto simp: ensure_session_def db_commit_def db_add_def
           split: option.splits sum.splits)

lemma save_user_message_appends:
  assumes "save_user_message env session_id user_query db1 = (Inr (), db2)" and "pending db1 = []"
  shows "messages db2 = messages db1 @
           [\<lparr>m_id = next_message_id db1, m_session_id = session_id, m_role = ''user'',
             m_content = user_query, m_created_at = clock db1\<rparr>]"
  using assms
  by (auto simp: save_user_message_def db_commit_def db_add_def split: option.splits)

lemma history_messages_append:
  "history_messages (xs @ ys) = history_messages xs @ history_messages ys"
  by (induction xs) auto

lemma sorted_recent_window:
  "sorted (map f (rev (take n (rev (sort_key f xs)))))"
proof -
  have "sorted (drop (length xs - n) (map f (sort_key f xs)))"
    by (rule sorted_wrt_drop) simp
  then show ?thesis by (simp add: rev_take drop_map)
qed

lemma recent_window_split:
  "\<exists>older. older @ rev (take n (rev (sort_key f xs))) = sort_key f xs"
proof -
  have "take (length xs - n) (sort_key f xs) @ rev (take n (rev (sort_key f xs))) = sort_key f xs"
    by (simp add: rev_take)
  then show ?thesis ..
qed

lemma recent_window_newest:
  assumes "older @ recent = sort_key f xs"
  shows "mset (older @ recent) = mset xs \<and> (\<forall>p \<in> set older. \<forall>h \<in> set recent. f p \<le> f h)"
proof -
  have "sorted (map f (older @ recent))"
    unfolding assms by simp
  then have "\<forall>p \<in> set older. \<forall>h \<in> set recent. f p \<le> f h"
    by (simp add: sorted_append)
  moreover have "mset (older @ recent) = mset xs"
    unfolding assms by simp
  ultimately show ?thesis by simp
qed

lemma first_answer:
  "llm env 0 msgs = Inr reply \<Longrightarrow>
   invoke_with_retry env msgs [0..<max_retries] delay dflt sl = (Inr reply, sl)"
  by (simp add: upt_max_retries)

text \<open>
  Claim C8. In a turn whose stages 1, 2 and 4 succeed, the history that \<open>process_chat\<close>
  sends to the provider is the result of the query for the last 6 messages, which come
  most recent first, reversed: it is in chronological order, it holds the 6 most recent
  messages of the session (all of them when there are fewer), and it ends with the user
  message that stage 2 has just committed, which closes the prompt as its last human
  message. The turn is observed through the provider: what the provider answers to this
  prompt at the first attempt is the reply of the turn.
\<close>

theorem history_window_includes_user_message:
  assumes "pending (turn_db w) = []"
      and "\<forall>m \<in> set (messages (turn_db w)). m_created_at m < clock (turn_db w)"
      and "ensure_session env session_id (turn_db w) = (Inr session_summary, db1)"
      and "save_user_message env session_id user_query db1 = (Inr (), db2)"
      and "select_history_fault env = None"
      and "llm env 0
             (SystemMessage (system_prompt (retrieve_context env session_id user_query db2)
                               session_summary)
                # history_messages (rev (last_messages 6 session_id db2))) = Inr reply"
      and "commit_ai_fault env = None"
      and "add_task_fault env = None"
  shows "fst (process_chat env session_id user_query w) = Inr reply \<and>
         length (last_messages 6 session_id db2) =
           min 6 (length [m \<leftarrow> messages db2. m_session_id m = session_id]) \<and>
         sorted (rev (map m_created_at (last_messages 6 session_id db2))) \<and>
         sorted (map m_created_at (rev (last_messages 6 session_id db2))) \<and>
         (\<exists>older. mset (older @ rev (last_messages 6 session_id db2)) =
                     mset [m \<leftarrow> messages db2. m_session_id m = session_id] \<and>
                   (\<forall>p \<in> set older. \<forall>h \<in> set (rev (last_messages 6 session_id db2)).
                      m_created_at p \<le> m_created_at h)) \<and>
         last (rev (last_messages 6 session_id db2)) =
           \<lparr>m_id = next_message_id (turn_db w), m_session_id = session_id, m_role = ''user'',
             m_content = user_query, m_created_at = clock db1\<rparr> \<and>
         (\<exists>earlier. history_messages (rev (last_messages 6 session_id db2)) =
                      earlier @ [HumanMessage user_query])"
proof -
  let ?db = "turn_db w"
  let ?new = "\<lparr>m_id = next_message_id ?db, m_session_id = session_id, m_role = ''user'',
                m_content = user_query, m_created_at = clock db1\<rparr>"
  let ?old = "[m \<leftarrow> messages ?db. m_session_id m = session_id]"
  let ?all = "[m \<leftarrow> messages db2. m_session_id m = session_id]"
  let ?hist = "rev (last_messages 6 session_id db2)"
  let ?msgs = "SystemMessage (system_prompt (retrieve_context env session_id user_query db2)
                                session_summary) # history_messages ?hist"
  have hist: "read_history env session_id db2 = Inr ?hist"
    using assms(5) by (simp add: read_history_def)
  have loop: "invoke_with_retry env ?msgs [0..<max_retries] 5 overloaded_reply (slept w)
                = (Inr reply, slept w)"
    using assms(6) by (rule first_answer)
  have fin: "fst (finish_turn env session_id reply (w\<lparr>turn_db := db2, slept := slept w\<rparr>))
               = Inr reply"
    using assms(7,8) by (simp add: finish_turn_def db_commit_def)
  have body: "fst (process_chat_body env session_id user_query w) = Inr reply"
    using assms(3,4) hist loop fin by (simp add: process_chat_body_def Let_def)
  have turn: "fst (process_chat env session_id user_query w) = Inr reply"
    using body by (auto simp: process_chat_def split: prod.splits sum.splits)
  from ensure_session_keeps_messages [OF assms(3) assms(1)]
  have s1: "messages db1 = messages ?db" "clock ?db \<le> clock db1" "pending db1 = []"
           "next_message_id db1 = next_message_id ?db"
    by simp_all
  from save_user_message_appends [OF assms(4) s1(3)] s1
  have msgs2: "messages db2 = messages ?db @ [?new]" by simp
  have older: "\<forall>m \<in> set ?old. m_created_at m \<le> m_created_at ?new"
    using assms(2) s1(2) by auto
  have filtered: "?all = ?old @ [?new]"
    by (simp add: msgs2)
  have sorted_all: "sort_key m_created_at (?old @ [?new]) = sort_key m_created_at ?old @ [?new]"
    using older by (rule sort_key_append_max)
  have window: "?hist = rev (take 5 (rev (sort_key m_created_at ?old))) @ [?new]"
    by (simp add: last_messages_def filtered sorted_all)
  have len: "length (last_messages 6 session_id db2) = min 6 (length ?all)"
    by (simp add: last_messages_def)
  have chrono: "sorted (map m_created_at ?hist)"
    unfolding last_messages_def by (rule sorted_recent_window)
  then have desc: "sorted (rev (map m_created_at (last_messages 6 session_id db2)))"
    by (simp add: rev_map)
  obtain older where split: "older @ ?hist = sort_key m_created_at ?all"
    unfolding last_messages_def using recent_window_split by blast
  have newest: "\<exists>older. mset (older @ ?hist) = mset ?all \<and>
                  (\<forall>p \<in> set older. \<forall>h \<in> set ?hist. m_created_at p \<le> m_created_at h)"
    using recent_window_newest [OF split] by blast
  have lst: "last ?hist = ?new"
    unfolding window by simp
  have prompt: "\<exists>earlier. history_messages ?hist = earlier @ [HumanMessage user_query]"
    unfolding window by (simp add: history_messages_append)
  from turn len desc chrono newest lst prompt show ?thesis by (intro conjI)
qed

lemma long_session_db_user_message:
  "save_user_message echo_chat_env ''A'' ''q5'' long_session_db =
     (Inr (),
      long_session_db\<lparr>messages := messages long_session_db @
                         [\<lparr>m_id = 7, m_session_id = ''A'', m_role = ''user'',
                           m_content = ''q5'', m_created_at = 8\<rparr>],
                      next_message_id := 8, clock := 9\<rparr>)"
  by (simp add: save_user_message_def echo_chat_env_def sample_chat_env_def long_session_db_def
        db_commit_def db_add_def)

lemma long_session_db_window:
  "rev (last_messages 6 ''A''
          (long_session_db\<lparr>messages := messages long_session_db @
                         [\<lparr>m_id = 7, m_session_id = ''A'', m_role = ''user'',
                           m_content = ''q5'', m_created_at = 8\<rparr>],
                      next_message_id := 8, clock := 9\<rparr>)) =
     [\<lparr>m_id = 2, m_session_id = ''A'', m_role = ''user'', m_content = ''q2'', m_created_at = 3\<rparr>,
      \<lparr>m_id = 3, m_session_id = ''A'', m_role = ''assistant'', m_content = ''a2'',
        m_created_at = 4\<rparr>,
      \<lparr>m_id = 4, m_session_id = ''A'', m_role = ''user'', m_content = ''q3'', m_created_at = 5\<rparr>,
      \<lparr>m_id = 5, m_session_id = ''A'', m_role = ''assistant'', m_content = ''a3'',
        m_created_at = 6\<rparr>,
      \<lparr>m_id = 6, m_session_id = ''A'', m_role = ''user'', m_content = ''q4'', m_created_at = 7\<rparr>,
      \<lparr>m_id = 7, m_session_id = ''A'', m_role = ''user'', m_content = ''q5'', m_created_at = 8\<rparr>]"
  by (simp add: last_messages_def long_session_db_def)

theorem history_window_includes_user_message_witness:
  "pending long_session_db = [] \<and>
   map m_created_at (messages long_session_db) = [1, 2, 3, 4, 5, 6, 7] \<and>
   clock long_session_db = 8 \<and>
   ensure_session echo_chat_env ''A'' long_session_db = (Inr [], long_session_db) \<and>
   save_user_message echo_chat_env ''A'' ''q5'' long_session_db =
     (Inr (),
      long_session_db\<lparr>messages := messages long_session_db @
                         [\<lparr>m_id = 7, m_session_id = ''A'', m_role = ''user'',
                           m_content = ''q5'', m_created_at = 8\<rparr>],
                      next_message_id := 8, clock := 9\<rparr>) \<and>
   llm echo_chat_env 0 [SystemMessage ''instructions'', HumanMessage ''q'', AIMessage ''a'']
     = Inr ''H:q;A:a;'' \<and>
   fst (process_chat echo_chat_env ''A'' ''q5''
          \<lparr>turn_db = long_session_db, slept = [], tasks = []\<rparr>)
     = Inr ''H:q2;A:a2;H:q3;A:a3;H:q4;H:q5;''"
proof -
  let ?w = "\<lparr>turn_db = long_session_db, slept = [], tasks = []\<rparr>"
  let ?db2 = "long_session_db\<lparr>messages := messages long_session_db @
                         [\<lparr>m_id = 7, m_session_id = ''A'', m_role = ''user'',
                           m_content = ''q5'', m_created_at = 8\<rparr>],
                      next_message_id := 8, clock := 9\<rparr>"
  have h1: "pending (turn_db ?w) = []"
    by (simp add: long_session_db_def)
  have times: "map m_created_at (messages long_session_db) = [1, 2, 3, 4, 5, 6, 7]"
              "clock long_session_db = 8"
    by (simp_all add: long_session_db_def)
  have h2: "\<forall>m \<in> set (messages (turn_db ?w)). m_created_at m < clock (turn_db ?w)"
    by (simp add: long_session_db_def)
  have s1: "ensure_session echo_chat_env ''A'' long_session_db = (Inr [], long_session_db)"
    by (simp add: ensure_session_def echo_chat_env_def sample_chat_env_def long_session_db_def
          scalar_one_or_none_def)
  then have h3: "ensure_session echo_chat_env ''A'' (turn_db ?w) = (Inr [], long_session_db)"
    by simp
  have h5: "select_history_fault echo_chat_env = None"
    by (simp add: echo_chat_env_def sample_chat_env_def)
  have echo: "llm echo_chat_env = (\<lambda>attempt msgs. Inr (render_history msgs))"
    by (simp add: echo_chat_env_def)
  have h6: "llm echo_chat_env 0
              (SystemMessage (system_prompt (retrieve_context echo_chat_env ''A'' ''q5'' ?db2) [])
                 # history_messages (rev (last_messages 6 ''A'' ?db2)))
              = Inr ''H:q2;A:a2;H:q3;A:a3;H:q4;H:q5;''"
    unfolding long_session_db_window echo by simp
  have h7: "commit_ai_fault echo_chat_env = None"
    by (simp add: echo_chat_env_def sample_chat_env_def)
  have h8: "add_task_fault echo_chat_env = None"
    by (simp add: echo_chat_env_def sample_chat_env_def)
  have sample: "llm echo_chat_env 0 [SystemMessage ''instructions'', HumanMessage ''q'',
                                     AIMessage ''a''] = Inr ''H:q;A:a;''"
    unfolding echo by simp
  have turn: "fst (process_chat echo_chat_env ''A'' ''q5'' ?w)
                = Inr ''H:q2;A:a2;H:q3;A:a3;H:q4;H:q5;''"
    using history_window_includes_user_message
            [OF h1 h2 h3 long_session_db_user_message h5 h6 h7 h8]
    by (rule conjunct1)
  have p: "pending long_session_db = []"
    by (simp add: long_session_db_def)
  from p times s1 long_session_db_user_message sample turn show ?thesis by (intro conjI)
qed

end
